theory Spec2Isabelle
  imports Main "HOL-Library.Word" "HOL-Library.Mapping"
begin

section \<open>Errors\<close>

text \<open>
  The two sentinel errors of the package (\<^verbatim>\<open>ErrKeyNotFound\<close>, \<^verbatim>\<open>ErrInvalidFieldType\<close>),
  the sentinel \<^verbatim>\<open>rdb.Nil\<close> of the backend, any other backend error, and an error that
  wraps another one (\<^verbatim>\<open>fmt.Errorf("...: %w", err)\<close>).
\<close>

datatype error =
    rdb_Nil
  | ErrKeyNotFound
  | ErrInvalidFieldType
  | BackendError string
  | Wrapped string error

text \<open>\<^verbatim>\<open>errors.Is(err, target)\<close>: \<open>err\<close> or an error on its unwrap chain is \<open>target\<close>.\<close>

fun errors_Is :: "error \<Rightarrow> error \<Rightarrow> bool" where
  "errors_Is (Wrapped m inner) target = (Wrapped m inner = target \<or> errors_Is inner target)"
| "errors_Is err target = (err = target)"

section \<open>Configuration (options.go)\<close>

text \<open>
  Go's \<^verbatim>\<open>int\<close> and \<^verbatim>\<open>time.Duration\<close> fields are only copied or compared with zero, apart
  from \<^verbatim>\<open>len(cfg.Addrs) + 1\<close>, which cannot overflow for a string that fits in memory; they
  are modelled as \<open>int\<close>. A Go \<^verbatim>\<open>string\<close> is a byte sequence, as \<open>string\<close> is here.
\<close>

record Config =
  Network :: string
  Addrs :: string
  Protocol :: int
  Username :: string
  Password :: string
  DB :: int
  MaxRedirects :: int
  ReadOnly :: bool
  RouteByLatency :: bool
  RouteRandomly :: bool
  MaxRetries :: int
  MinRetryBackoff :: int
  MaxRetryBackoff :: int
  DialTimeout :: int
  ReadTimeout :: int
  WriteTimeout :: int
  ContextTimeoutEnabled :: bool
  PoolFIFO :: bool
  PoolSize :: int
  PoolTimeout :: int
  MinIdleConns :: int
  MaxIdleConns :: int
  MaxActiveConns :: int
  ConnMaxIdleTime :: int
  ConnMaxLifetime :: int
  DisableIndentity :: bool
  UnstableResp3 :: bool

text \<open>
  \<^verbatim>\<open>rdb.Options\<close>, the single-node connection policy: the fields that this package
  assigns (in \<^verbatim>\<open>parseClientConfig\<close> and in \<^verbatim>\<open>newClient\<close>). The type has no routing flag and
  no redirect budget. TLS configurations and limiters are opaque handles.
\<close>

record Options =
  oNetwork :: string
  oAddr :: string
  oClientName :: string
  oProtocol :: int
  oUsername :: string
  oPassword :: string
  oDB :: int
  oMaxRetries :: int
  oMinRetryBackoff :: int
  oMaxRetryBackoff :: int
  oDialTimeout :: int
  oReadTimeout :: int
  oWriteTimeout :: int
  oContextTimeoutEnabled :: bool
  oPoolFIFO :: bool
  oPoolSize :: int
  oPoolTimeout :: int
  oMinIdleConns :: int
  oMaxIdleConns :: int
  oMaxActiveConns :: int
  oConnMaxIdleTime :: int
  oConnMaxLifetime :: int
  oTLSConfig :: "nat option"
  oLimiter :: "nat option"
  oDisableIndentity :: bool
  oUnstableResp3 :: bool

text \<open>\<^verbatim>\<open>rdb.ClusterOptions\<close>, the multi-node connection policy, likewise.\<close>

record ClusterOptions =
  cAddrs :: "string list"
  cClientName :: string
  cMaxRedirects :: int
  cReadOnly :: bool
  cRouteByLatency :: bool
  cRouteRandomly :: bool
  cProtocol :: int
  cUsername :: string
  cPassword :: string
  cMaxRetries :: int
  cMinRetryBackoff :: int
  cMaxRetryBackoff :: int
  cDialTimeout :: int
  cReadTimeout :: int
  cWriteTimeout :: int
  cContextTimeoutEnabled :: bool
  cPoolFIFO :: bool
  cPoolSize :: int
  cPoolTimeout :: int
  cMinIdleConns :: int
  cMaxIdleConns :: int
  cMaxActiveConns :: int
  cConnMaxIdleTime :: int
  cConnMaxLifetime :: int
  cTLSConfig :: "nat option"
  cDisableIndentity :: bool

text \<open>
  \<^verbatim>\<open>strings.Split(s, sep)\<close> for a separator of one byte (the package only splits on
  \<^verbatim>\<open>","\<close>): the pieces between the separators, so one piece more than there are
  separators, and \<open>[[]]\<close> for the empty string.
\<close>

fun strings_Split :: "string \<Rightarrow> char \<Rightarrow> string list" where
  "strings_Split [] sep = [[]]"
| "strings_Split (c # cs) sep =
     (if c = sep then [] # strings_Split cs sep
      else (case strings_Split cs sep of
              [] \<Rightarrow> [[c]]
            | w # ws \<Rightarrow> (c # w) # ws))"

definition parseClientConfig :: "Config \<Rightarrow> Options" where
  "parseClientConfig cfg =
     (let opts = \<lparr> oNetwork = Network cfg,
                   oAddr = [],
                   oClientName = [],
                   oProtocol = 0,
                   oUsername = Username cfg,
                   oPassword = Password cfg,
                   oDB = DB cfg,
                   oMaxRetries = MaxRetries cfg,
                   oMinRetryBackoff = MinRetryBackoff cfg,
                   oMaxRetryBackoff = MaxRetryBackoff cfg,
                   oDialTimeout = DialTimeout cfg,
                   oReadTimeout = ReadTimeout cfg,
                   oWriteTimeout = WriteTimeout cfg,
                   oContextTimeoutEnabled = ContextTimeoutEnabled cfg,
                   oPoolFIFO = PoolFIFO cfg,
                   oPoolSize = PoolSize cfg,
                   oPoolTimeout = PoolTimeout cfg,
                   oMinIdleConns = MinIdleConns cfg,
                   oMaxIdleConns = MaxIdleConns cfg,
                   oMaxActiveConns = MaxActiveConns cfg,
                   oConnMaxIdleTime = ConnMaxIdleTime cfg,
                   oConnMaxLifetime = ConnMaxLifetime cfg,
                   oTLSConfig = None,
                   oLimiter = None,
                   oDisableIndentity = DisableIndentity cfg,
                   oUnstableResp3 = UnstableResp3 cfg \<rparr>;
          addrs = strings_Split (Addrs cfg) CHR '','';
          opts = (if length addrs > 0 then opts\<lparr> oAddr := hd addrs \<rparr> else opts);
          opts = (if Protocol cfg > 0 then opts\<lparr> oProtocol := Protocol cfg \<rparr> else opts)
      in opts)"

definition parseClusterConfig :: "Config \<Rightarrow> ClusterOptions" where
  "parseClusterConfig cfg =
     (let opts = \<lparr> cAddrs = strings_Split (Addrs cfg) CHR '','',
                   cClientName = [],
                   cMaxRedirects = 0,
                   cReadOnly = ReadOnly cfg,
                   cRouteByLatency = RouteByLatency cfg,
                   cRouteRandomly = RouteRandomly cfg,
                   cProtocol = 0,
                   cUsername = Username cfg,
                   cPassword = Password cfg,
                   cMaxRetries = MaxRetries cfg,
                   cMinRetryBackoff = MinRetryBackoff cfg,
                   cMaxRetryBackoff = MaxRetryBackoff cfg,
                   cDialTimeout = DialTimeout cfg,
                   cReadTimeout = ReadTimeout cfg,
                   cWriteTimeout = WriteTimeout cfg,
                   cContextTimeoutEnabled = ContextTimeoutEnabled cfg,
                   cPoolFIFO = PoolFIFO cfg,
                   cPoolSize = PoolSize cfg,
                   cPoolTimeout = PoolTimeout cfg,
                   cMinIdleConns = MinIdleConns cfg,
                   cMaxIdleConns = MaxIdleConns cfg,
                   cMaxActiveConns = MaxActiveConns cfg,
                   cConnMaxIdleTime = ConnMaxIdleTime cfg,
                   cConnMaxLifetime = ConnMaxLifetime cfg,
                   cTLSConfig = None,
                   cDisableIndentity = DisableIndentity cfg \<rparr>;
          opts = (if Protocol cfg > 0 then opts\<lparr> cProtocol := Protocol cfg \<rparr> else opts);
          opts = (if MaxRedirects cfg = 0
                  then opts\<lparr> cMaxRedirects := int (length (Addrs cfg)) + 1 \<rparr> else opts)
      in opts)"

definition defaultConfig :: Config where
  "defaultConfig =
     \<lparr> Network = [], Addrs = ''127.0.0.1:6379'', Protocol = 0, Username = [], Password = [],
       DB = 0, MaxRedirects = 0, ReadOnly = True, RouteByLatency = False,
       RouteRandomly = False, MaxRetries = 0, MinRetryBackoff = 0, MaxRetryBackoff = 0,
       DialTimeout = 0, ReadTimeout = 0, WriteTimeout = 0, ContextTimeoutEnabled = False,
       PoolFIFO = False, PoolSize = 0, PoolTimeout = 0, MinIdleConns = 0, MaxIdleConns = 0,
       MaxActiveConns = 0, ConnMaxIdleTime = 0, ConnMaxLifetime = 0,
       DisableIndentity = False, UnstableResp3 = False \<rparr>"

section \<open>Values seen through reflection\<close>

text \<open>The kinds of \<^verbatim>\<open>reflect.Kind\<close>.\<close>

datatype kind =
    reflect_Invalid | reflect_Bool
  | reflect_Int | reflect_Int8 | reflect_Int16 | reflect_Int32 | reflect_Int64
  | reflect_Uint | reflect_Uint8 | reflect_Uint16 | reflect_Uint32 | reflect_Uint64
  | reflect_Uintptr | reflect_Float32 | reflect_Float64
  | reflect_Complex64 | reflect_Complex128
  | reflect_Array | reflect_Chan | reflect_Func | reflect_Interface | reflect_Map
  | reflect_Pointer | reflect_Slice | reflect_String | reflect_Struct
  | reflect_UnsafePointer

text \<open>
  A value of Go's \<^verbatim>\<open>any\<close>: the nil interface, a struct with its fields in declaration
  order, or a value of another kind with its contents left opaque. A struct field has
  the result of \<^verbatim>\<open>Tag.Lookup("redis")\<close> (\<open>None\<close> when the key is absent), whether it
  is exported (\<^verbatim>\<open>Value.Interface\<close> panics on a field that is not), the kind that
  \<^verbatim>\<open>v.Field(i).Kind()\<close> reports and the value that \<^verbatim>\<open>v.Field(i).Interface()\<close> returns.
\<close>

datatype gvalue =
    GoNil
  | GoValue kind string
  | GoStruct "sfield list"
and sfield =
    StructField (field_tag: "string option") (field_exported: bool)
                (field_kind: kind) (field_value: gvalue)

text \<open>\<^verbatim>\<open>reflect.ValueOf(value).Kind()\<close>.\<close>

fun Kind :: "gvalue \<Rightarrow> kind" where
  "Kind GoNil = reflect_Invalid"
| "Kind (GoValue k payload) = k"
| "Kind (GoStruct flds) = reflect_Struct"

text \<open>
  The \<^verbatim>\<open>switch\<close> on the kind that \<^verbatim>\<open>HSet\<close> and \<^verbatim>\<open>HSetObject\<close> share: the first
  \<^verbatim>\<open>case\<close> lists the kinds that are refused.
\<close>

definition invalidFieldKind :: "kind \<Rightarrow> bool" where
  "invalidFieldKind k =
     (case k of
        reflect_Invalid \<Rightarrow> True | reflect_Pointer \<Rightarrow> True | reflect_Array \<Rightarrow> True
      | reflect_Map \<Rightarrow> True | reflect_Struct \<Rightarrow> True | reflect_Slice \<Rightarrow> True
      | reflect_Func \<Rightarrow> True | reflect_Chan \<Rightarrow> True | reflect_UnsafePointer \<Rightarrow> True
      | _ \<Rightarrow> False)"

section \<open>The backend connection\<close>

text \<open>
  The commands that the package queues in a pipeline, and a sub-result (\<^verbatim>\<open>rdb.Cmder\<close>)
  with the error it carries.
\<close>

datatype command =
    HSET string string gvalue
  | EXPIRE string int
  | DEL "string list"

record Cmder =
  cmd_Args :: command
  cmd_Err :: "error option"

text \<open>
  \<^verbatim>\<open>*rdb.StringCmd\<close>, the reply to \<^verbatim>\<open>GET\<close>, as what each of its decoding methods
  returns (\<open>cmd_Scan\<close> for the destination of the caller). A \<^verbatim>\<open>float64\<close> is its 64 bits;
  the package only hands it on.
\<close>

record StringCmd =
  cmd_Scan :: "error option"
  cmd_Bool :: "bool \<times> error option"
  cmd_Bytes :: "8 word list \<times> error option"
  cmd_Float64 :: "64 word \<times> error option"
  cmd_Int :: "64 word \<times> error option"
  cmd_Int64 :: "64 word \<times> error option"
  cmd_Uint64 :: "64 word \<times> error option"
  cmd_Result :: "string \<times> error option"

text \<open>\<^verbatim>\<open>*rdb.MapStringStringCmd\<close>, the reply to \<^verbatim>\<open>HGETALL\<close>.\<close>

record MapStringStringCmd =
  hcmd_Err :: "error option"
  hcmd_Val :: "(string, string) mapping"
  hcmd_Scan :: "error option"

text \<open>
  The connection \<^verbatim>\<open>c.conn\<close> as a test double: what it answers to each request.
  \<open>conn_Exec\<close> is \<^verbatim>\<open>Exec\<close> of a pipeline opened by \<^verbatim>\<open>TxPipeline\<close> on it, applied to the
  queued commands; both it and \<^verbatim>\<open>Pipelined\<close> return the sub-results and an error.
\<close>

record conn =
  conn_Get :: "string \<Rightarrow> StringCmd"
  conn_HGetAll :: "string \<Rightarrow> MapStringStringCmd"
  conn_Exec :: "command list \<Rightarrow> Cmder list \<times> error option"
  conn_Pipelined :: "command list \<Rightarrow> Cmder list \<times> error option"

text \<open>
  What an operation did with the connection and its pipeline, in order: \<^verbatim>\<open>TxPipeline()\<close>,
  a command queued (\<^verbatim>\<open>pipe.HSet\<close>, \<^verbatim>\<open>pipe.Expire\<close>), \<^verbatim>\<open>pipe.Exec\<close> with the commands
  queued by then, \<^verbatim>\<open>Pipelined\<close> with the commands its callback queues.
\<close>

datatype call =
    Call_TxPipeline
  | Call_pipe command
  | Call_pipe_Exec "command list"
  | Call_Pipelined "command list"

text \<open>A Go call returns or panics.\<close>

datatype 'a outcome = Returned 'a | Panicked

section \<open>Commands (client.go)\<close>

definition HGetAll :: "conn \<Rightarrow> string \<Rightarrow> error option" where
  "HGetAll c key =
     (let res = conn_HGetAll c key in
      case hcmd_Err res of
        Some err \<Rightarrow> Some err
      | None \<Rightarrow>
          if Mapping.size (hcmd_Val res) = 0 then Some ErrKeyNotFound
          else hcmd_Scan res)"

definition Get :: "conn \<Rightarrow> string \<Rightarrow> error option" where
  "Get c key =
     (case cmd_Scan (conn_Get c key) of
        Some err \<Rightarrow> if errors_Is err rdb_Nil then Some ErrKeyNotFound else Some err
      | None \<Rightarrow> None)"

text \<open>
  The loop \<^verbatim>\<open>for _, cmd := range cmder\<close> that ends \<^verbatim>\<open>HSet\<close>, \<^verbatim>\<open>HSetObject\<close> and
  \<^verbatim>\<open>MassDelete\<close>: \<open>err\<close> is assigned from each sub-result in turn and the function
  returns at the first one that is not nil; after the loop it returns \<open>err\<close> as it is.
\<close>

fun range_cmder :: "error option \<Rightarrow> Cmder list \<Rightarrow> error option" where
  "range_cmder err [] = err"
| "range_cmder err (cmd # cmder) =
     (case cmd_Err cmd of
        Some e \<Rightarrow> Some e
      | None \<Rightarrow> range_cmder None cmder)"

definition HSet :: "conn \<Rightarrow> string \<Rightarrow> string \<Rightarrow> gvalue \<Rightarrow> int \<Rightarrow> error option \<times> call list" where
  "HSet c key field val ttl =
     (let calls = [Call_TxPipeline] in
      if invalidFieldKind (Kind val) then (Some ErrInvalidFieldType, calls)
      else
        let pipe = [HSET key field val];
            calls = calls @ [Call_pipe (HSET key field val)];
            pipe = pipe @ [EXPIRE key ttl];
            calls = calls @ [Call_pipe (EXPIRE key ttl)];
            (cmder, err) = conn_Exec c pipe;
            calls = calls @ [Call_pipe_Exec pipe]
        in if err \<noteq> None then (err, calls)
           else (range_cmder err cmder, calls))"

text \<open>
  The loop over the fields of \<^verbatim>\<open>HSetObject\<close>, from field \<open>i\<close> on, with the pipeline and
  the calls so far. It ends the whole operation with \<^verbatim>\<open>ErrInvalidFieldType\<close> at a
  tagged field of a refused kind, and panics in \<^verbatim>\<open>Interface()\<close> at a tagged field that
  is not exported.
\<close>

fun HSetObject_fields ::
  "string \<Rightarrow> sfield list \<Rightarrow> command list \<times> call list
     \<Rightarrow> (error option) outcome \<times> command list \<times> call list" where
  "HSetObject_fields key [] (pipe, calls) = (Returned None, pipe, calls)"
| "HSetObject_fields key (f # fs) (pipe, calls) =
     (case field_tag f of
        None \<Rightarrow> HSetObject_fields key fs (pipe, calls)
      | Some tagValue \<Rightarrow>
          if tagValue \<noteq> ''-'' then
            if invalidFieldKind (field_kind f)
            then (Returned (Some ErrInvalidFieldType), pipe, calls)
            else if \<not> field_exported f then (Panicked, pipe, calls)
            else HSetObject_fields key fs
                   (pipe @ [HSET key tagValue (field_value f)],
                    calls @ [Call_pipe (HSET key tagValue (field_value f))])
          else HSetObject_fields key fs (pipe, calls))"

text \<open>
  \<^verbatim>\<open>t.NumField()\<close> panics unless the type of \<open>data\<close> is a struct type (and \<open>t\<close> is nil for
  the nil interface).
\<close>

fun HSetObject :: "conn \<Rightarrow> string \<Rightarrow> gvalue \<Rightarrow> int \<Rightarrow> (error option) outcome \<times> call list" where
  "HSetObject c key (GoStruct flds) ttl =
     (case HSetObject_fields key flds ([], [Call_TxPipeline]) of
        (Panicked, pipe, calls) \<Rightarrow> (Panicked, calls)
      | (Returned (Some e), pipe, calls) \<Rightarrow> (Returned (Some e), calls)
      | (Returned None, pipe, calls) \<Rightarrow>
          let pipe = pipe @ [EXPIRE key ttl];
              calls = calls @ [Call_pipe (EXPIRE key ttl)];
              (cmder, err) = conn_Exec c pipe;
              calls = calls @ [Call_pipe_Exec pipe]
          in if err \<noteq> None then (Returned err, calls)
             else (Returned (range_cmder err cmder), calls))"
| "HSetObject c key data ttl = (Panicked, [Call_TxPipeline])"

text \<open>
  The typed accessors. Each is \<^verbatim>\<open>(val, ok, err)\<close> with the named results of the source:
  \<open>val\<close> is whatever the decoding method returned, also beside an error.
\<close>

definition Bool :: "conn \<Rightarrow> string \<Rightarrow> bool \<times> bool \<times> error option" where
  "Bool c key =
     (let res = conn_Get c key; (val, err) = cmd_Bool res in
      case err of
        Some e \<Rightarrow> if errors_Is e rdb_Nil then (val, False, None) else (val, False, Some e)
      | None \<Rightarrow> (val, True, None))"

definition Bytes :: "conn \<Rightarrow> string \<Rightarrow> 8 word list \<times> bool \<times> error option" where
  "Bytes c key =
     (let res = conn_Get c key; (val, err) = cmd_Bytes res in
      case err of
        Some e \<Rightarrow> if errors_Is e rdb_Nil then (val, False, None) else (val, False, Some e)
      | None \<Rightarrow> (val, True, None))"

definition Float64 :: "conn \<Rightarrow> string \<Rightarrow> 64 word \<times> bool \<times> error option" where
  "Float64 c key =
     (let res = conn_Get c key; (val, err) = cmd_Float64 res in
      case err of
        Some e \<Rightarrow> if errors_Is e rdb_Nil then (val, False, None) else (val, False, Some e)
      | None \<Rightarrow> (val, True, None))"

definition Int' :: "conn \<Rightarrow> string \<Rightarrow> 64 word \<times> bool \<times> error option" where
  "Int' c key =
     (let res = conn_Get c key; (val, err) = cmd_Int res in
      case err of
        Some e \<Rightarrow> if errors_Is e rdb_Nil then (val, False, None) else (val, False, Some e)
      | None \<Rightarrow> (val, True, None))"

definition Int64 :: "conn \<Rightarrow> string \<Rightarrow> 64 word \<times> bool \<times> error option" where
  "Int64 c key =
     (let res = conn_Get c key; (val, err) = cmd_Int64 res in
      case err of
        Some e \<Rightarrow> if errors_Is e rdb_Nil then (val, False, None) else (val, False, Some e)
      | None \<Rightarrow> (val, True, None))"

definition Uint64 :: "conn \<Rightarrow> string \<Rightarrow> 64 word \<times> bool \<times> error option" where
  "Uint64 c key =
     (let res = conn_Get c key; (val, err) = cmd_Uint64 res in
      case err of
        Some e \<Rightarrow> if errors_Is e rdb_Nil then (val, False, None) else (val, False, Some e)
      | None \<Rightarrow> (val, True, None))"

definition String :: "conn \<Rightarrow> string \<Rightarrow> string \<times> bool \<times> error option" where
  "String c key =
     (let res = conn_Get c key; (val, err) = cmd_Result res in
      case err of
        Some e \<Rightarrow> if errors_Is e rdb_Nil then (val, False, None) else (val, False, Some e)
      | None \<Rightarrow> (val, True, None))"

text \<open>
  \<^verbatim>\<open>MassDelete\<close> queues one \<^verbatim>\<open>DEL\<close> of all the keys and does not test the error of
  \<^verbatim>\<open>Pipelined\<close> before the loop.
\<close>

definition MassDelete :: "conn \<Rightarrow> string list \<Rightarrow> error option \<times> call list" where
  "MassDelete c keys =
     (let (cmders, err) = conn_Pipelined c [DEL keys]
      in (range_cmder err cmders, [Call_Pipelined [DEL keys]]))"

section \<open>Client construction (options.go, client.go)\<close>

text \<open>
  Loggers, marshallers, providers, TLS configurations and limiters are opaque: a handle,
  and for a logger the attributes added by \<^verbatim>\<open>With\<close>. The options of \<^verbatim>\<open>redisotel\<close> are
  kept as built, in the order appended.
\<close>

datatype Logger = Logger nat "(string \<times> string) list"

definition slog_Default :: Logger where
  "slog_Default = Logger 0 []"

fun Logger_With :: "Logger \<Rightarrow> string \<times> string \<Rightarrow> Logger" where
  "Logger_With (Logger h attrs) a = Logger h (attrs @ [a])"

datatype MarshallerFunc = json_Marshal | CustomMarshaller nat

datatype MetricsOption =
    redisotel_WithMeterProvider nat
  | redisotel_WithDBSystem_m string
  | redisotel_WithAttributes_m "(string \<times> string) list"

datatype TracingOption =
    redisotel_WithTracerProvider nat
  | redisotel_WithDBStatement bool
  | redisotel_WithDBSystem_t string
  | redisotel_WithAttributes_t "(string \<times> string) list"

text \<open>The connection handle: which constructor of the backend made it, from which policy.\<close>

datatype connection =
    rdb_NewClient Options
  | rdb_NewClusterClient ClusterOptions

text \<open>
  The \<^verbatim>\<open>Client\<close> struct. \<open>c_namespace\<close> is the field that \<^verbatim>\<open>WithMetricsNamespace\<close>
  assigns. A nil pointer, interface or function is \<open>None\<close>.
\<close>

record Client =
  c_id :: string
  c_suffix :: string
  c_conn :: "connection option"
  c_cfg :: Config
  c_tls :: "nat option"
  c_logger :: Logger
  c_limiter :: "nat option"
  c_marshaller :: "MarshallerFunc option"
  c_meterOptions :: "MetricsOption list"
  c_traceOptions :: "TracingOption list"
  c_namespace :: string

text \<open>
  Modelled from the spec: \<^verbatim>\<open>GenerateUUID\<close> is called by \<^verbatim>\<open>getID\<close> and \<^verbatim>\<open>WithClientID\<close>
  and is not among the sources; the spec has it return "a freshly generated
  globally-unique token (e.g., UUID-v4)". Here the tokens come from a supply \<open>src\<close>, and
  the state is the number of tokens drawn so far: the \<open>n\<close>-th call returns \<open>src n\<close>.
  Uniqueness is the injectivity of \<open>src\<close>, stated where a theorem needs it.
\<close>

definition GenerateUUID :: "(nat \<Rightarrow> string) \<Rightarrow> nat \<Rightarrow> string \<times> nat" where
  "GenerateUUID src n = (src n, Suc n)"

text \<open>The functional options, each with the argument it was built from.\<close>

datatype Option =
    WithLogger "Logger option"
  | WithConfig "Config option"
  | WithClientID string
  | WithIdentitySuffix string
  | WithMarshaller "MarshallerFunc option"
  | WithTLS "nat option"
  | WithLimiter "nat option"
  | WithMeterProvider "nat option"
  | WithMetricsNamespace string
  | WithTraceProvider "nat option"
  | WithDBStatement bool
  | WithDBSystem string
  | WithAttributes "(string \<times> string) list"

definition addMeterOption :: "Client \<Rightarrow> MetricsOption \<Rightarrow> Client" where
  "addMeterOption c opt = c\<lparr> c_meterOptions := c_meterOptions c @ [opt] \<rparr>"

definition addTraceOption :: "Client \<Rightarrow> TracingOption \<Rightarrow> Client" where
  "addTraceOption c opt = c\<lparr> c_traceOptions := c_traceOptions c @ [opt] \<rparr>"

text \<open>\<^verbatim>\<open>opt.apply(c)\<close>, with the token supply and its state.\<close>

fun apply_Option :: "(nat \<Rightarrow> string) \<Rightarrow> Option \<Rightarrow> Client \<times> nat \<Rightarrow> Client \<times> nat" where
  "apply_Option src (WithLogger l) (c, n) =
     (case l of Some lg \<Rightarrow> (c\<lparr> c_logger := lg \<rparr>, n) | None \<Rightarrow> (c, n))"
| "apply_Option src (WithConfig config) (c, n) =
     (case config of Some cfg \<Rightarrow> (c\<lparr> c_cfg := cfg \<rparr>, n) | None \<Rightarrow> (c, n))"
| "apply_Option src (WithClientID i) (c, n) =
     (if i \<noteq> [] then
        (let (uuid, n') = GenerateUUID src n
         in (c\<lparr> c_id := i @ ''-'' @ uuid \<rparr>, n'))
      else (c, n))"
| "apply_Option src (WithIdentitySuffix suffix) (c, n) =
     (if suffix \<noteq> [] then (c\<lparr> c_suffix := suffix \<rparr>, n) else (c, n))"
| "apply_Option src (WithMarshaller fn) (c, n) =
     (case fn of Some f \<Rightarrow> (c\<lparr> c_marshaller := Some f \<rparr>, n) | None \<Rightarrow> (c, n))"
| "apply_Option src (WithTLS cfg) (c, n) =
     (case cfg of Some t \<Rightarrow> (c\<lparr> c_tls := Some t \<rparr>, n) | None \<Rightarrow> (c, n))"
| "apply_Option src (WithLimiter limiter) (c, n) =
     (case limiter of Some l \<Rightarrow> (c\<lparr> c_limiter := Some l \<rparr>, n) | None \<Rightarrow> (c, n))"
| "apply_Option src (WithMeterProvider mp) (c, n) =
     (case mp of
        Some p \<Rightarrow> (addMeterOption c (redisotel_WithMeterProvider p), n)
      | None \<Rightarrow> (c, n))"
| "apply_Option src (WithMetricsNamespace namespace) (c, n) =
     (if namespace \<noteq> [] then (c\<lparr> c_namespace := namespace \<rparr>, n) else (c, n))"
| "apply_Option src (WithTraceProvider provider) (c, n) =
     (case provider of
        Some p \<Rightarrow> (addTraceOption c (redisotel_WithTracerProvider p), n)
      | None \<Rightarrow> (c, n))"
| "apply_Option src (WithDBStatement on) (c, n) =
     (addTraceOption c (redisotel_WithDBStatement on), n)"
| "apply_Option src (WithDBSystem system) (c, n) =
     (if system \<noteq> [] then
        (addMeterOption (addTraceOption c (redisotel_WithDBSystem_t system))
           (redisotel_WithDBSystem_m system), n)
      else (c, n))"
| "apply_Option src (WithAttributes attrs) (c, n) =
     (addMeterOption (addTraceOption c (redisotel_WithAttributes_t attrs))
        (redisotel_WithAttributes_m attrs), n)"

text \<open>\<^verbatim>\<open>for _, opt := range opts { opt.apply(c) }\<close>.\<close>

fun apply_opts :: "(nat \<Rightarrow> string) \<Rightarrow> Option list \<Rightarrow> Client \<times> nat \<Rightarrow> Client \<times> nat" where
  "apply_opts src [] cn = cn"
| "apply_opts src (opt # opts) cn = apply_opts src opts (apply_Option src opt cn)"

text \<open>\<^verbatim>\<open>getID\<close> reads \<^verbatim>\<open>c.id\<close> and assigns nothing to the client.\<close>

definition getID :: "(nat \<Rightarrow> string) \<Rightarrow> Client \<Rightarrow> nat \<Rightarrow> string \<times> nat" where
  "getID src c n = (if c_id c = [] then GenerateUUID src n else (c_id c, n))"

text \<open>
  What construction does to the outside, in order, and what the outside answers: the
  errors of \<^verbatim>\<open>redisotel.InstrumentTracing\<close>, \<^verbatim>\<open>redisotel.InstrumentMetrics\<close> and of
  \<^verbatim>\<open>Ping\<close> on a connection.
\<close>

datatype event =
    Ev_Open connection
  | Ev_InstrumentTracing "TracingOption list"
  | Ev_InstrumentMetrics "MetricsOption list"
  | Ev_Ping

record backend =
  InstrumentTracing :: "connection \<Rightarrow> TracingOption list \<Rightarrow> error option"
  InstrumentMetrics :: "connection \<Rightarrow> MetricsOption list \<Rightarrow> error option"
  Ping :: "connection \<Rightarrow> error option"

text \<open>\<^verbatim>\<open>exposeInstrumenting\<close>, on the connection \<open>cn\<close> that \<^verbatim>\<open>c.conn\<close> holds.\<close>

definition exposeInstrumenting ::
  "backend \<Rightarrow> Client \<Rightarrow> connection \<Rightarrow> error option \<times> event list" where
  "exposeInstrumenting b c cn =
     (let err = InstrumentTracing b cn (c_traceOptions c);
          evs = [Ev_InstrumentTracing (c_traceOptions c)]
      in case err of
           Some e \<Rightarrow> (Some e, evs)
         | None \<Rightarrow>
             let err = InstrumentMetrics b cn (c_meterOptions c);
                 evs = evs @ [Ev_InstrumentMetrics (c_meterOptions c)]
             in case err of
                  Some e \<Rightarrow> (Some e, evs)
                | None \<Rightarrow> (None, evs))"

text \<open>
  \<^verbatim>\<open>newClient\<close>. The single-node branch calls \<^verbatim>\<open>parseConfig\<close>, which the sources do not
  define (\<^verbatim>\<open>options.go\<close> has \<^verbatim>\<open>parseClientConfig\<close>); it is the parameter \<open>parseConfig\<close>.
  The result is the error or the client, the events, and the state of the token supply.
\<close>

definition newClient ::
  "(nat \<Rightarrow> string) \<Rightarrow> backend \<Rightarrow> (Config \<Rightarrow> Options) \<Rightarrow> bool \<Rightarrow> Option list \<Rightarrow> nat
     \<Rightarrow> (error + Client) \<times> event list \<times> nat" where
  "newClient src b parseConfig cluster opts n =
     (let c = \<lparr> c_id = [], c_suffix = [], c_conn = None, c_cfg = defaultConfig,
                c_tls = None, c_logger = slog_Default, c_limiter = None,
                c_marshaller = None, c_meterOptions = [], c_traceOptions = [],
                c_namespace = [] \<rparr>;
          (c, n) = apply_opts src opts (c, n);
          c = c\<lparr> c_logger := Logger_With (c_logger c) (''component'', ''redis'') \<rparr>;
          c = (if c_marshaller c = None then c\<lparr> c_marshaller := Some json_Marshal \<rparr> else c);
          (cn, n) =
            (if cluster then
               let connOpts = parseClusterConfig (c_cfg c);
                   connOpts = connOpts\<lparr> cTLSConfig := c_tls c \<rparr>;
                   (name, n) = getID src c n;
                   connOpts = connOpts\<lparr> cClientName := name \<rparr>
               in (rdb_NewClusterClient connOpts, n)
             else
               let connOpts = parseConfig (c_cfg c);
                   connOpts = connOpts\<lparr> oTLSConfig := c_tls c \<rparr>;
                   (name, n) = getID src c n;
                   connOpts = connOpts\<lparr> oClientName := name \<rparr>;
                   connOpts = connOpts\<lparr> oLimiter := c_limiter c \<rparr>
               in (rdb_NewClient connOpts, n));
          c = c\<lparr> c_conn := Some cn \<rparr>;
          evs = [Ev_Open cn];
          (err, evs') = exposeInstrumenting b c cn;
          evs = evs @ evs'
      in case err of
           Some e \<Rightarrow> (Inl e, evs, n)
         | None \<Rightarrow>
             let err = Ping b cn; evs = evs @ [Ev_Ping]
             in case err of
                  Some e \<Rightarrow> (Inl e, evs, n)
                | None \<Rightarrow> (Inr c, evs, n))"

definition NewClient ::
  "(nat \<Rightarrow> string) \<Rightarrow> backend \<Rightarrow> (Config \<Rightarrow> Options) \<Rightarrow> Option list \<Rightarrow> nat
     \<Rightarrow> (error + Client) \<times> event list \<times> nat" where
  "NewClient src b parseConfig opts n = newClient src b parseConfig False opts n"

definition NewClusterClient ::
  "(nat \<Rightarrow> string) \<Rightarrow> backend \<Rightarrow> (Config \<Rightarrow> Options) \<Rightarrow> Option list \<Rightarrow> nat
     \<Rightarrow> (error + Client) \<times> event list \<times> nat" where
  "NewClusterClient src b parseConfig opts n = newClient src b parseConfig True opts n"

section \<open>Notions of the specification\<close>

text \<open>
  The first sub-result error: the error of the first sub-result, in the order returned,
  that carries one.
\<close>

definition first_error :: "Cmder list \<Rightarrow> error option" where
  "first_error cmds =
     (case List.find (\<lambda>cmd. cmd_Err cmd \<noteq> None) cmds of
        None \<Rightarrow> None
      | Some cmd \<Rightarrow> cmd_Err cmd)"

text \<open>
  A field carries the recognised tag with a value other than the exclusion marker; and
  one hash-field write for each such field of an object, in field order.
\<close>

definition tagged_for_write :: "sfield \<Rightarrow> bool" where
  "tagged_for_write f = (case field_tag f of None \<Rightarrow> False | Some t \<Rightarrow> t \<noteq> ''-'')"

definition field_writes :: "string \<Rightarrow> sfield list \<Rightarrow> command list" where
  "field_writes key flds =
     List.map_filter
       (\<lambda>f. case field_tag f of
               None \<Rightarrow> None
             | Some t \<Rightarrow> if t \<noteq> ''-'' then Some (HSET key t (field_value f)) else None)
       flds"

text \<open>
  The contract of a typed accessor, in the words of the specification: for what the
  decoding method returned (\<open>reply\<close>), the accessor's \<^verbatim>\<open>(val, ok, err)\<close> is found with the
  decoded value on success, not found and no error on the missing-value sentinel, and
  not found with the error handed on otherwise.
\<close>

definition typed_get_contract :: "'a \<times> error option \<Rightarrow> 'a \<times> bool \<times> error option \<Rightarrow> bool" where
  "typed_get_contract reply result =
     (case snd reply of
        None \<Rightarrow> result = (fst reply, True, None)
      | Some e \<Rightarrow>
          if errors_Is e rdb_Nil then fst (snd result) = False \<and> snd (snd result) = None
          else fst (snd result) = False \<and> snd (snd result) = Some e)"

section \<open>Test doubles\<close>

text \<open>A reply to \<^verbatim>\<open>GET\<close> for a missing key, and one that every method decodes.\<close>

definition missing_StringCmd :: StringCmd where
  "missing_StringCmd =
     \<lparr> cmd_Scan = Some rdb_Nil, cmd_Bool = (False, Some rdb_Nil),
       cmd_Bytes = ([], Some rdb_Nil), cmd_Float64 = (0, Some rdb_Nil),
       cmd_Int = (0, Some rdb_Nil), cmd_Int64 = (0, Some rdb_Nil),
       cmd_Uint64 = (0, Some rdb_Nil), cmd_Result = ([], Some rdb_Nil) \<rparr>"

definition one_StringCmd :: StringCmd where
  "one_StringCmd =
     \<lparr> cmd_Scan = None, cmd_Bool = (True, None), cmd_Bytes = ([49], None),
       cmd_Float64 = (4607182418800017408, None), cmd_Int = (1, None),
       cmd_Int64 = (1, None), cmd_Uint64 = (1, None), cmd_Result = (''1'', None) \<rparr>"

text \<open>
  A store that holds \<^verbatim>\<open>"1"\<close> at the key \<^verbatim>\<open>"x"\<close> and nothing else, and that executes every
  batch without error.
\<close>

definition quiet_conn :: conn where
  "quiet_conn =
     \<lparr> conn_Get = (\<lambda>key. if key = ''x'' then one_StringCmd else missing_StringCmd),
       conn_HGetAll = (\<lambda>key. \<lparr> hcmd_Err = None, hcmd_Val = Mapping.empty, hcmd_Scan = None \<rparr>),
       conn_Exec = (\<lambda>cmds. (map (\<lambda>a. \<lparr> cmd_Args = a, cmd_Err = None \<rparr>) cmds, None)),
       conn_Pipelined = (\<lambda>cmds. (map (\<lambda>a. \<lparr> cmd_Args = a, cmd_Err = None \<rparr>) cmds, None)) \<rparr>"

text \<open>
  A store that times out on reads. In a transactional batch the first command succeeds
  and every later one fails, each kind with its own error, while \<^verbatim>\<open>Exec\<close> reports no
  error of its own; in a pipelined batch every command fails and \<^verbatim>\<open>Pipelined\<close> reports
  the error of the first.
\<close>

fun fault_of :: "command \<Rightarrow> error" where
  "fault_of (HSET key field val) = BackendError ''WRONGTYPE''"
| "fault_of (EXPIRE key ttl) = BackendError ''timeout''"
| "fault_of (DEL keys) = BackendError ''READONLY''"

definition faulty_conn :: conn where
  "faulty_conn =
     \<lparr> conn_Get = (\<lambda>key. missing_StringCmd\<lparr> cmd_Scan := Some (BackendError ''timeout''),
                                              cmd_Result := ([], Some (BackendError ''timeout'')) \<rparr>),
       conn_HGetAll = (\<lambda>key. \<lparr> hcmd_Err = Some (BackendError ''timeout''),
                                hcmd_Val = Mapping.empty, hcmd_Scan = None \<rparr>),
       conn_Exec = (\<lambda>cmds. case cmds of
                               [] \<Rightarrow> ([], None)
                             | a # rest \<Rightarrow>
                                 (\<lparr> cmd_Args = a, cmd_Err = None \<rparr>
                                    # map (\<lambda>a. \<lparr> cmd_Args = a, cmd_Err = Some (fault_of a) \<rparr>) rest,
                                  None)),
       conn_Pipelined = (\<lambda>cmds. (map (\<lambda>a. \<lparr> cmd_Args = a, cmd_Err = Some (fault_of a) \<rparr>) cmds,
                                  case cmds of [] \<Rightarrow> None | a # _ \<Rightarrow> Some (fault_of a))) \<rparr>"

text \<open>Instrumentation that attaches, with a server that answers the ping or does not.\<close>

definition healthy_backend :: backend where
  "healthy_backend =
     \<lparr> InstrumentTracing = (\<lambda>cn opts. None), InstrumentMetrics = (\<lambda>cn opts. None),
       Ping = (\<lambda>cn. None) \<rparr>"

definition unreachable_backend :: backend where
  "unreachable_backend =
     \<lparr> InstrumentTracing = (\<lambda>cn opts. None), InstrumentMetrics = (\<lambda>cn opts. None),
       Ping = (\<lambda>cn. Some (BackendError ''connection refused'')) \<rparr>"

text \<open>A supply of pairwise different tokens: the \<open>n\<close>-th is \<open>n\<close> times the letter u.\<close>

definition unary_tokens :: "nat \<Rightarrow> string" where
  "unary_tokens n = replicate n CHR ''u''"

text \<open>An object with a written field, an excluded field and a field without tag.\<close>

definition sample_object :: gvalue where
  "sample_object =
     GoStruct
       [StructField (Some ''name'') True reflect_String (GoValue reflect_String ''ann''),
        StructField (Some ''-'') True reflect_Int (GoValue reflect_Int ''7''),
        StructField None False reflect_Pointer (GoValue reflect_Pointer ''0xc000''),
        StructField (Some ''age'') True reflect_Int (GoValue reflect_Int ''41'')]"

text \<open>The client as \<^verbatim>\<open>newClient\<close> first builds it, before any option is applied.\<close>

definition anonymous_client :: Client where
  "anonymous_client =
     \<lparr> c_id = [], c_suffix = [], c_conn = None, c_cfg = defaultConfig,
       c_tls = None, c_logger = slog_Default, c_limiter = None,
       c_marshaller = None, c_meterOptions = [], c_traceOptions = [],
       c_namespace = [] \<rparr>"

section \<open>Configuration resolution\<close>

lemma strings_Split_not_Nil: "strings_Split s sep \<noteq> []"
  by (induction s) (auto split: list.splits)

lemma length_strings_Split:
  "length (strings_Split s sep) = Suc (length (filter (\<lambda>c. c = sep) s))"
  by (induction s) (auto split: list.splits)

text \<open>
  With the redirect budget unset, the multi-node policy gets the number of bytes of
  the address field plus one, whatever the number of addresses.
\<close>

lemma parseClusterConfig_unset_MaxRedirects:
  "MaxRedirects cfg = 0 \<Longrightarrow>
     cMaxRedirects (parseClusterConfig cfg) = int (length (Addrs cfg)) + 1"
  by (simp add: parseClusterConfig_def Let_def)

text \<open>
  Claim C1: with the redirect budget unset, multi-node resolution sets the budget to the
  number of addresses plus one, so to 4 for the address field \<^verbatim>\<open>"a:1,b:2,c:3"\<close>. The code
  takes \<^verbatim>\<open>len(cfg.Addrs)\<close>, the length of the string, where its comment speaks of the
  number of nodes: for this address field the budget is unset, the addresses are three,
  and the resolved budget is 12.
\<close>

theorem parseClusterConfig_three_nodes:
  "MaxRedirects (defaultConfig\<lparr> Addrs := ''a:1,b:2,c:3'' \<rparr>) = 0
   \<and> cAddrs (parseClusterConfig (defaultConfig\<lparr> Addrs := ''a:1,b:2,c:3'' \<rparr>))
       = [''a:1'', ''b:2'', ''c:3'']
   \<and> cMaxRedirects (parseClusterConfig (defaultConfig\<lparr> Addrs := ''a:1,b:2,c:3'' \<rparr>)) = 12"
  by (simp add: parseClusterConfig_def defaultConfig_def Let_def)

text \<open>
  Claim C6, as amended: single-node resolution uses the first piece of the address
  field split on commas as the connection address; the routing flags and the redirect
  budget of the record have no influence on the resolved policy; the protocol version
  is copied when it is positive and is zero otherwise; every other field of the record
  is copied as it is.
\<close>

theorem parseClientConfig_fields:
  "(\<exists>rest. strings_Split (Addrs cfg) CHR '','' = oAddr (parseClientConfig cfg) # rest)
   \<and> parseClientConfig (cfg\<lparr> ReadOnly := ro, RouteByLatency := rl, RouteRandomly := rr,
                              MaxRedirects := mr \<rparr>) = parseClientConfig cfg
   \<and> oProtocol (parseClientConfig cfg) = (if Protocol cfg > 0 then Protocol cfg else 0)
   \<and> oNetwork (parseClientConfig cfg) = Network cfg
   \<and> oUsername (parseClientConfig cfg) = Username cfg
   \<and> oPassword (parseClientConfig cfg) = Password cfg
   \<and> oDB (parseClientConfig cfg) = DB cfg
   \<and> oMaxRetries (parseClientConfig cfg) = MaxRetries cfg
   \<and> oMinRetryBackoff (parseClientConfig cfg) = MinRetryBackoff cfg
   \<and> oMaxRetryBackoff (parseClientConfig cfg) = MaxRetryBackoff cfg
   \<and> oDialTimeout (parseClientConfig cfg) = DialTimeout cfg
   \<and> oReadTimeout (parseClientConfig cfg) = ReadTimeout cfg
   \<and> oWriteTimeout (parseClientConfig cfg) = WriteTimeout cfg
   \<and> oContextTimeoutEnabled (parseClientConfig cfg) = ContextTimeoutEnabled cfg
   \<and> oPoolFIFO (parseClientConfig cfg) = PoolFIFO cfg
   \<and> oPoolSize (parseClientConfig cfg) = PoolSize cfg
   \<and> oPoolTimeout (parseClientConfig cfg) = PoolTimeout cfg
   \<and> oMinIdleConns (parseClientConfig cfg) = MinIdleConns cfg
   \<and> oMaxIdleConns (parseClientConfig cfg) = MaxIdleConns cfg
   \<and> oMaxActiveConns (parseClientConfig cfg) = MaxActiveConns cfg
   \<and> oConnMaxIdleTime (parseClientConfig cfg) = ConnMaxIdleTime cfg
   \<and> oConnMaxLifetime (parseClientConfig cfg) = ConnMaxLifetime cfg
   \<and> oDisableIndentity (parseClientConfig cfg) = DisableIndentity cfg
   \<and> oUnstableResp3 (parseClientConfig cfg) = UnstableResp3 cfg"
proof -
  have addr: "\<exists>rest. strings_Split (Addrs cfg) CHR '','' = oAddr (parseClientConfig cfg) # rest"
    using strings_Split_not_Nil [of "Addrs cfg" "CHR '',''"]
    by (cases "strings_Split (Addrs cfg) CHR '',''") (simp_all add: parseClientConfig_def Let_def)
  have flags: "parseClientConfig (cfg\<lparr> ReadOnly := ro, RouteByLatency := rl, RouteRandomly := rr,
                              MaxRedirects := mr \<rparr>) = parseClientConfig cfg"
    by (simp add: parseClientConfig_def Let_def)
  have rest: "oProtocol (parseClientConfig cfg) = (if Protocol cfg > 0 then Protocol cfg else 0)"
    "oNetwork (parseClientConfig cfg) = Network cfg"
    "oUsername (parseClientConfig cfg) = Username cfg"
    "oPassword (parseClientConfig cfg) = Password cfg"
    "oDB (parseClientConfig cfg) = DB cfg"
    "oMaxRetries (parseClientConfig cfg) = MaxRetries cfg"
    "oMinRetryBackoff (parseClientConfig cfg) = MinRetryBackoff cfg"
    "oMaxRetryBackoff (parseClientConfig cfg) = MaxRetryBackoff cfg"
    "oDialTimeout (parseClientConfig cfg) = DialTimeout cfg"
    "oReadTimeout (parseClientConfig cfg) = ReadTimeout cfg"
    "oWriteTimeout (parseClientConfig cfg) = WriteTimeout cfg"
    "oContextTimeoutEnabled (parseClientConfig cfg) = ContextTimeoutEnabled cfg"
    "oPoolFIFO (parseClientConfig cfg) = PoolFIFO cfg"
    "oPoolSize (parseClientConfig cfg) = PoolSize cfg"
    "oPoolTimeout (parseClientConfig cfg) = PoolTimeout cfg"
    "oMinIdleConns (parseClientConfig cfg) = MinIdleConns cfg"
    "oMaxIdleConns (parseClientConfig cfg) = MaxIdleConns cfg"
    "oMaxActiveConns (parseClientConfig cfg) = MaxActiveConns cfg"
    "oConnMaxIdleTime (parseClientConfig cfg) = ConnMaxIdleTime cfg"
    "oConnMaxLifetime (parseClientConfig cfg) = ConnMaxLifetime cfg"
    "oDisableIndentity (parseClientConfig cfg) = DisableIndentity cfg"
    "oUnstableResp3 (parseClientConfig cfg) = UnstableResp3 cfg"
    by (simp_all add: parseClientConfig_def Let_def)
  from addr flags rest show ?thesis by (intro conjI)
qed

text \<open>The three-address field resolves to its first address, with a positive protocol.\<close>

theorem parseClientConfig_fields_witness:
  "oAddr (parseClientConfig (defaultConfig\<lparr> Addrs := ''a:1,b:2,c:3'', Protocol := 2 \<rparr>)) = ''a:1''
   \<and> oProtocol (parseClientConfig (defaultConfig\<lparr> Addrs := ''a:1,b:2,c:3'', Protocol := 2 \<rparr>)) = 2"
  using parseClientConfig_fields [of "defaultConfig\<lparr> Addrs := ''a:1,b:2,c:3'', Protocol := 2 \<rparr>"]
  by (simp add: defaultConfig_def)

text \<open>
  Not every non-addressing field is copied as it is: a negative protocol version
  resolves to zero, and two records that differ in the redirect budget alone resolve to
  the same policy.
\<close>

theorem parseClientConfig_not_verbatim:
  "Protocol (defaultConfig\<lparr> Protocol := - 1 \<rparr>) = - 1
   \<and> oProtocol (parseClientConfig (defaultConfig\<lparr> Protocol := - 1 \<rparr>)) = 0
   \<and> parseClientConfig (defaultConfig\<lparr> MaxRedirects := 5 \<rparr>)
       = parseClientConfig (defaultConfig\<lparr> MaxRedirects := 7 \<rparr>)"
  by (simp add: parseClientConfig_def defaultConfig_def Let_def)

section \<open>Not-found semantics\<close>

text \<open>
  Claim C4: \<^verbatim>\<open>Get\<close> maps the missing-value sentinel of the backend (an error for which
  \<^verbatim>\<open>errors.Is(err, rdb.Nil)\<close> holds) to \<^verbatim>\<open>ErrKeyNotFound\<close> and returns every other error
  unchanged; \<^verbatim>\<open>HGetAll\<close> returns \<^verbatim>\<open>ErrKeyNotFound\<close> when the reply is a hash with no
  field, the one reply the backend gives for an absent hash and for an empty one.
\<close>

theorem Get_HGetAll_not_found:
  "(cmd_Scan (conn_Get c key) = Some e \<and> errors_Is e rdb_Nil
      \<longrightarrow> Get c key = Some ErrKeyNotFound)
   \<and> (cmd_Scan (conn_Get c key) = Some e \<and> \<not> errors_Is e rdb_Nil
      \<longrightarrow> Get c key = Some e)
   \<and> (hcmd_Err (conn_HGetAll c key) = None \<and> hcmd_Val (conn_HGetAll c key) = Mapping.empty
      \<longrightarrow> HGetAll c key = Some ErrKeyNotFound)"
  by (simp add: Get_def HGetAll_def Let_def)

text \<open>A missing key, a backend that times out, and a hash without fields.\<close>

theorem Get_HGetAll_not_found_witness:
  "Get quiet_conn ''y'' = Some ErrKeyNotFound
   \<and> Get faulty_conn ''y'' = Some (BackendError ''timeout'')
   \<and> HGetAll quiet_conn ''h'' = Some ErrKeyNotFound"
  using Get_HGetAll_not_found [of quiet_conn "''y''" rdb_Nil]
        Get_HGetAll_not_found [of faulty_conn "''y''" "BackendError ''timeout''"]
        Get_HGetAll_not_found [of quiet_conn "''h''"]
  by (simp add: quiet_conn_def faulty_conn_def missing_StringCmd_def)

section \<open>Typed accessors\<close>

lemma Bool_no_Nil: "snd (snd (Bool c key)) = Some e \<Longrightarrow> \<not> errors_Is e rdb_Nil"
  by (simp add: Bool_def Let_def split: prod.splits option.splits if_splits)

lemma Bytes_no_Nil: "snd (snd (Bytes c key)) = Some e \<Longrightarrow> \<not> errors_Is e rdb_Nil"
  by (simp add: Bytes_def Let_def split: prod.splits option.splits if_splits)

lemma Float64_no_Nil: "snd (snd (Float64 c key)) = Some e \<Longrightarrow> \<not> errors_Is e rdb_Nil"
  by (simp add: Float64_def Let_def split: prod.splits option.splits if_splits)

lemma Int_no_Nil: "snd (snd (Int' c key)) = Some e \<Longrightarrow> \<not> errors_Is e rdb_Nil"
  by (simp add: Int'_def Let_def split: prod.splits option.splits if_splits)

lemma Int64_no_Nil: "snd (snd (Int64 c key)) = Some e \<Longrightarrow> \<not> errors_Is e rdb_Nil"
  by (simp add: Int64_def Let_def split: prod.splits option.splits if_splits)

lemma Uint64_no_Nil: "snd (snd (Uint64 c key)) = Some e \<Longrightarrow> \<not> errors_Is e rdb_Nil"
  by (simp add: Uint64_def Let_def split: prod.splits option.splits if_splits)

lemma String_no_Nil: "snd (snd (String c key)) = Some e \<Longrightarrow> \<not> errors_Is e rdb_Nil"
  by (simp add: String_def Let_def split: prod.splits option.splits if_splits)

text \<open>
  Claim C5: each of \<^verbatim>\<open>Bool\<close>, \<^verbatim>\<open>Bytes\<close>, \<^verbatim>\<open>Float64\<close>, \<^verbatim>\<open>Int\<close>, \<^verbatim>\<open>Int64\<close>, \<^verbatim>\<open>Uint64\<close> and
  \<^verbatim>\<open>String\<close> returns not found and a nil error on the missing-value sentinel, found
  and the decoded value on success, and not found with the error on any other error;
  the error an accessor returns is never the missing-value sentinel.
\<close>

theorem typed_accessors:
  "typed_get_contract (cmd_Bool (conn_Get c key)) (Bool c key)
   \<and> typed_get_contract (cmd_Bytes (conn_Get c key)) (Bytes c key)
   \<and> typed_get_contract (cmd_Float64 (conn_Get c key)) (Float64 c key)
   \<and> typed_get_contract (cmd_Int (conn_Get c key)) (Int' c key)
   \<and> typed_get_contract (cmd_Int64 (conn_Get c key)) (Int64 c key)
   \<and> typed_get_contract (cmd_Uint64 (conn_Get c key)) (Uint64 c key)
   \<and> typed_get_contract (cmd_Result (conn_Get c key)) (String c key)
   \<and> (\<forall>e. snd (snd (Bool c key)) = Some e \<or> snd (snd (Bytes c key)) = Some e
          \<or> snd (snd (Float64 c key)) = Some e \<or> snd (snd (Int' c key)) = Some e
          \<or> snd (snd (Int64 c key)) = Some e \<or> snd (snd (Uint64 c key)) = Some e
          \<or> snd (snd (String c key)) = Some e
          \<longrightarrow> \<not> errors_Is e rdb_Nil)"
proof (intro conjI)
  show "typed_get_contract (cmd_Bool (conn_Get c key)) (Bool c key)"
    by (simp add: typed_get_contract_def Bool_def Let_def split: prod.splits option.splits)
  show "typed_get_contract (cmd_Bytes (conn_Get c key)) (Bytes c key)"
    by (simp add: typed_get_contract_def Bytes_def Let_def split: prod.splits option.splits)
  show "typed_get_contract (cmd_Float64 (conn_Get c key)) (Float64 c key)"
    by (simp add: typed_get_contract_def Float64_def Let_def split: prod.splits option.splits)
  show "typed_get_contract (cmd_Int (conn_Get c key)) (Int' c key)"
    by (simp add: typed_get_contract_def Int'_def Let_def split: prod.splits option.splits)
  show "typed_get_contract (cmd_Int64 (conn_Get c key)) (Int64 c key)"
    by (simp add: typed_get_contract_def Int64_def Let_def split: prod.splits option.splits)
  show "typed_get_contract (cmd_Uint64 (conn_Get c key)) (Uint64 c key)"
    by (simp add: typed_get_contract_def Uint64_def Let_def split: prod.splits option.splits)
  show "typed_get_contract (cmd_Result (conn_Get c key)) (String c key)"
    by (simp add: typed_get_contract_def String_def Let_def split: prod.splits option.splits)
  show "\<forall>e. snd (snd (Bool c key)) = Some e \<or> snd (snd (Bytes c key)) = Some e
          \<or> snd (snd (Float64 c key)) = Some e \<or> snd (snd (Int' c key)) = Some e
          \<or> snd (snd (Int64 c key)) = Some e \<or> snd (snd (Uint64 c key)) = Some e
          \<or> snd (snd (String c key)) = Some e
          \<longrightarrow> \<not> errors_Is e rdb_Nil"
  proof (intro allI impI)
    fix e
    assume "snd (snd (Bool c key)) = Some e \<or> snd (snd (Bytes c key)) = Some e
          \<or> snd (snd (Float64 c key)) = Some e \<or> snd (snd (Int' c key)) = Some e
          \<or> snd (snd (Int64 c key)) = Some e \<or> snd (snd (Uint64 c key)) = Some e
          \<or> snd (snd (String c key)) = Some e"
    then show "\<not> errors_Is e rdb_Nil"
      by (elim disjE)
         (erule Bool_no_Nil Bytes_no_Nil Float64_no_Nil Int_no_Nil Int64_no_Nil
            Uint64_no_Nil String_no_Nil)+
  qed
qed

text \<open>A key that is there, a key that is missing, and a backend that times out.\<close>

theorem typed_accessors_witness:
  "String quiet_conn ''x'' = (''1'', True, None)
   \<and> Bool quiet_conn ''x'' = (True, True, None)
   \<and> fst (snd (String quiet_conn ''y'')) = False \<and> snd (snd (String quiet_conn ''y'')) = None
   \<and> fst (snd (String faulty_conn ''y'')) = False
   \<and> snd (snd (String faulty_conn ''y'')) = Some (BackendError ''timeout'')"
  using typed_accessors [of quiet_conn "''x''"] typed_accessors [of quiet_conn "''y''"]
        typed_accessors [of faulty_conn "''y''"]
  by (simp add: typed_get_contract_def quiet_conn_def faulty_conn_def
        missing_StringCmd_def one_StringCmd_def)

section \<open>Hash-field writes\<close>

text \<open>
  Claim C2, as amended: for every value whose kind is pointer, array, map, struct,
  slice, function or channel (and for an unsafe pointer and the nil interface),
  \<^verbatim>\<open>HSet\<close> returns \<^verbatim>\<open>ErrInvalidFieldType\<close>; by then it has opened the transactional
  pipeline, which precedes the check of the kind, and has done nothing else: no command
  is queued and the pipeline is not executed.
\<close>

theorem HSet_refuses_shape:
  assumes "Kind val \<in> {reflect_Pointer, reflect_Array, reflect_Map, reflect_Struct,
                        reflect_Slice, reflect_Func, reflect_Chan,
                        reflect_UnsafePointer, reflect_Invalid}"
  shows "HSet c key field val ttl = (Some ErrInvalidFieldType, [Call_TxPipeline])"
proof -
  from assms have "invalidFieldKind (Kind val)"
    by (auto simp: invalidFieldKind_def)
  then show ?thesis
    by (simp add: HSet_def Let_def)
qed

text \<open>An empty struct as the value.\<close>

theorem HSet_refuses_shape_witness:
  "HSet faulty_conn ''k'' ''f'' (GoStruct []) 60 = (Some ErrInvalidFieldType, [Call_TxPipeline])"
  using HSet_refuses_shape [of "GoStruct []" faulty_conn "''k''" "''f''" 60]
  by simp

text \<open>
  The check of the kind does not come before the opening of the batch: for a pointer,
  \<^verbatim>\<open>HSet\<close> returns \<^verbatim>\<open>ErrInvalidFieldType\<close> with \<^verbatim>\<open>TxPipeline\<close> already called on the
  connection.
\<close>

theorem HSet_opens_batch_before_check:
  "HSet quiet_conn ''k'' ''f'' (GoValue reflect_Pointer ''0xc000'') 60
     = (Some ErrInvalidFieldType, [Call_TxPipeline])
   \<and> snd (HSet quiet_conn ''k'' ''f'' (GoValue reflect_Pointer ''0xc000'') 60) \<noteq> []"
  by (simp add: HSet_def invalidFieldKind_def Let_def)

section \<open>Inspection of the sub-results\<close>

lemma first_error_Nil: "first_error [] = None"
  by (simp add: first_error_def)

lemma first_error_Cons:
  "first_error (cmd # cmds) = (case cmd_Err cmd of Some e \<Rightarrow> Some e | None \<Rightarrow> first_error cmds)"
  by (simp add: first_error_def split: option.splits)

lemma range_cmder_Cons_first: "range_cmder err (cmd # cmds) = first_error (cmd # cmds)"
proof (induction cmds arbitrary: cmd err)
  case Nil
  show ?case by (simp add: first_error_Cons first_error_Nil split: option.splits)
next
  case (Cons a cmds)
  show ?case
    using Cons.IH [of None a]
    by (simp add: first_error_Cons split: option.splits)
qed

lemma range_cmder_first: "range_cmder err cmds = (if cmds = [] then err else first_error cmds)"
  by (cases cmds) (simp_all add: range_cmder_Cons_first del: range_cmder.simps(2))

lemma first_error_None_iff:
  "first_error cmds = None \<longleftrightarrow> (\<forall>cmd \<in> set cmds. cmd_Err cmd = None)"
  by (induction cmds) (auto simp: first_error_Nil first_error_Cons split: option.splits)

lemma first_error_later_errors:
  "(\<forall>cmd \<in> set pre. cmd_Err cmd = None) \<Longrightarrow> cmd_Err cmd = Some e \<Longrightarrow>
     first_error (pre @ cmd # post) = Some e"
  by (induction pre) (auto simp: first_error_Cons)

section \<open>The fields of an object\<close>

lemma field_writes_Nil: "field_writes key [] = []"
  by (simp add: field_writes_def List.map_filter_simps)

lemma field_writes_Cons:
  "field_writes key (f # fs) =
     (case field_tag f of
        None \<Rightarrow> field_writes key fs
      | Some t \<Rightarrow> if t \<noteq> ''-'' then HSET key t (field_value f) # field_writes key fs
                  else field_writes key fs)"
  by (simp add: field_writes_def List.map_filter_simps split: option.splits)

lemma field_writes_untagged:
  "\<forall>f \<in> set flds. \<not> tagged_for_write f \<Longrightarrow> field_writes key flds = []"
  by (induction flds) (auto simp: field_writes_Nil field_writes_Cons tagged_for_write_def split: option.splits)

lemma field_writes_mem:
  "HSET k t v \<in> set (field_writes key flds) \<longleftrightarrow>
     k = key \<and> t \<noteq> ''-'' \<and> (\<exists>f \<in> set flds. field_tag f = Some t \<and> field_value f = v)"
  by (induction flds) (auto simp: field_writes_Nil field_writes_Cons split: option.splits)

lemma HSetObject_fields_valid:
  "\<forall>f \<in> set flds. tagged_for_write f \<longrightarrow> \<not> invalidFieldKind (field_kind f) \<and> field_exported f \<Longrightarrow>
   HSetObject_fields key flds (pipe, calls) =
     (Returned None, pipe @ field_writes key flds, calls @ map Call_pipe (field_writes key flds))"
proof (induction flds arbitrary: pipe calls)
  case Nil
  show ?case by (simp add: field_writes_Nil)
next
  case (Cons f fs)
  then show ?case
    by (cases "field_tag f") (auto simp: field_writes_Cons tagged_for_write_def)
qed

lemma HSetObject_fields_shape:
  "HSetObject_fields key flds (pipe, calls) = (r, pipe', calls') \<Longrightarrow>
     \<exists>ws. pipe' = pipe @ ws \<and> calls' = calls @ map Call_pipe ws
          \<and> (r = Returned None \<longrightarrow> ws = field_writes key flds)"
proof (induction flds arbitrary: pipe calls)
  case Nil
  then show ?case by (auto simp: field_writes_Nil)
next
  case (Cons f fs)
  show ?case
  proof (cases "field_tag f")
    case None
    with Cons.prems have "HSetObject_fields key fs (pipe, calls) = (r, pipe', calls')" by simp
    from Cons.IH [OF this] None show ?thesis by (simp add: field_writes_Cons)
  next
    case (Some t)
    show ?thesis
    proof (cases "t = ''-''")
      case True
      with Some Cons.prems have "HSetObject_fields key fs (pipe, calls) = (r, pipe', calls')" by simp
      from Cons.IH [OF this] Some True show ?thesis by (simp add: field_writes_Cons)
    next
      case False
      show ?thesis
      proof (cases "invalidFieldKind (field_kind f) \<or> \<not> field_exported f")
        case True
        with Some False Cons.prems have "pipe' = pipe \<and> calls' = calls \<and> r \<noteq> Returned None"
          by (auto split: if_splits)
        then show ?thesis by simp
      next
        case ok: False
        with Some False Cons.prems
        have "HSetObject_fields key fs (pipe @ [HSET key t (field_value f)],
                calls @ [Call_pipe (HSET key t (field_value f))]) = (r, pipe', calls')"
          by simp
        from Cons.IH [OF this] obtain ws where
          ws: "pipe' = (pipe @ [HSET key t (field_value f)]) @ ws"
              "calls' = (calls @ [Call_pipe (HSET key t (field_value f))]) @ map Call_pipe ws"
              "r = Returned None \<longrightarrow> ws = field_writes key fs" by blast
        show ?thesis
        proof (intro exI [of _ "HSET key t (field_value f) # ws"] conjI)
          show "pipe' = pipe @ HSET key t (field_value f) # ws" using ws(1) by simp
          show "calls' = calls @ map Call_pipe (HSET key t (field_value f) # ws)" using ws(2) by simp
          show "r = Returned None \<longrightarrow> HSET key t (field_value f) # ws = field_writes key (f # fs)"
            using ws(3) Some False by (simp add: field_writes_Cons)
        qed
      qed
    qed
  qed
qed

lemma HSetObject_fields_no_panic:
  "\<forall>f \<in> set flds. tagged_for_write f \<longrightarrow> field_exported f \<Longrightarrow>
     fst (HSetObject_fields key flds st) \<noteq> Panicked"
proof (induction flds arbitrary: st)
  case Nil
  show ?case by (cases st) simp
next
  case (Cons f fs)
  obtain pipe calls where st: "st = (pipe, calls)" by (cases st)
  from Cons.prems have rest: "\<forall>f \<in> set fs. tagged_for_write f \<longrightarrow> field_exported f"
    by simp
  show ?case
  proof (cases "field_tag f")
    case None
    with st Cons.IH [OF rest] show ?thesis by simp
  next
    case (Some t)
    with st Cons.prems Cons.IH [OF rest] show ?thesis
      by (auto simp: tagged_for_write_def)
  qed
qed

lemma Exec_not_in_queue: "Call_pipe_Exec b \<notin> set (map Call_pipe ws)"
  by auto

lemma HSetObject_Exec_batch:
  assumes "Call_pipe_Exec batch \<in> set (snd (HSetObject c key data ttl))"
  shows "\<exists>flds. data = GoStruct flds \<and> batch = field_writes key flds @ [EXPIRE key ttl]"
proof (cases data)
  case GoNil
  with assms show ?thesis by simp
next
  case (GoValue k p)
  with assms show ?thesis by simp
next
  case (GoStruct flds)
  obtain r pipe calls where res: "HSetObject_fields key flds ([], [Call_TxPipeline]) = (r, pipe, calls)"
    by (cases "HSetObject_fields key flds ([], [Call_TxPipeline])") auto
  from HSetObject_fields_shape [OF res] obtain ws where
    ws: "pipe = ws" "calls = [Call_TxPipeline] @ map Call_pipe ws"
        "r = Returned None \<longrightarrow> ws = field_writes key flds" by auto
  have noexec: "Call_pipe_Exec batch \<notin> set calls"
    using ws(2) by auto
  show ?thesis
  proof (cases "r = Returned None")
    case True
    with res ws assms GoStruct noexec have "batch = field_writes key flds @ [EXPIRE key ttl]"
      by (auto simp: Let_def split: prod.splits if_splits)
    with GoStruct show ?thesis by simp
  next
    case False
    with res assms GoStruct noexec have False
      by (cases r) (auto split: option.splits)
    then show ?thesis ..
  qed
qed

lemma HSetObject_valid_calls:
  assumes "\<forall>f \<in> set flds. tagged_for_write f \<longrightarrow> \<not> invalidFieldKind (field_kind f) \<and> field_exported f"
  shows "snd (HSetObject c key (GoStruct flds) ttl) =
           Call_TxPipeline # map Call_pipe (field_writes key flds)
             @ [Call_pipe (EXPIRE key ttl), Call_pipe_Exec (field_writes key flds @ [EXPIRE key ttl])]"
  by (simp add: HSetObject_fields_valid [OF assms] Let_def split: prod.splits)

text \<open>
  Claim C7: the batch that \<^verbatim>\<open>HSetObject\<close> executes holds a hash-field write for a field
  if and only if the field carries the tag with a value other than \<^verbatim>\<open>"-"\<close>: whenever a
  batch is executed, it is one write per such field, in field order, and then the
  expiry; \<open>field_writes\<close> has a write of \<open>v\<close> under \<open>t\<close> exactly when a field with
  value \<open>v\<close> carries the tag value \<open>t\<close> and \<open>t\<close> is not the marker; the batch is executed
  whenever the tagged fields pass the check of their kind and are exported; and
  an object without a field to write still has the expiry executed, as the only
  operation of the batch.
\<close>

theorem HSetObject_executed_batch:
  "(Call_pipe_Exec batch \<in> set (snd (HSetObject c key data ttl)) \<longrightarrow>
      (\<exists>flds. data = GoStruct flds \<and> batch = field_writes key flds @ [EXPIRE key ttl]))
   \<and> (HSET k t v \<in> set (field_writes key flds) \<longleftrightarrow>
        k = key \<and> t \<noteq> ''-'' \<and> (\<exists>f \<in> set flds. field_tag f = Some t \<and> field_value f = v))
   \<and> ((\<forall>f \<in> set flds. tagged_for_write f \<longrightarrow> \<not> invalidFieldKind (field_kind f) \<and> field_exported f) \<longrightarrow>
        snd (HSetObject c key (GoStruct flds) ttl) =
          Call_TxPipeline # map Call_pipe (field_writes key flds)
            @ [Call_pipe (EXPIRE key ttl), Call_pipe_Exec (field_writes key flds @ [EXPIRE key ttl])])
   \<and> ((\<forall>f \<in> set flds. \<not> tagged_for_write f) \<longrightarrow>
        snd (HSetObject c key (GoStruct flds) ttl) =
          [Call_TxPipeline, Call_pipe (EXPIRE key ttl), Call_pipe_Exec [EXPIRE key ttl]])"
proof (intro conjI impI)
  assume "Call_pipe_Exec batch \<in> set (snd (HSetObject c key data ttl))"
  then show "\<exists>flds. data = GoStruct flds \<and> batch = field_writes key flds @ [EXPIRE key ttl]"
    by (rule HSetObject_Exec_batch)
next
  show "HSET k t v \<in> set (field_writes key flds) \<longleftrightarrow>
        k = key \<and> t \<noteq> ''-'' \<and> (\<exists>f \<in> set flds. field_tag f = Some t \<and> field_value f = v)"
    by (rule field_writes_mem)
next
  assume "\<forall>f \<in> set flds. tagged_for_write f \<longrightarrow> \<not> invalidFieldKind (field_kind f) \<and> field_exported f"
  then show "snd (HSetObject c key (GoStruct flds) ttl) =
          Call_TxPipeline # map Call_pipe (field_writes key flds)
            @ [Call_pipe (EXPIRE key ttl), Call_pipe_Exec (field_writes key flds @ [EXPIRE key ttl])]"
    by (rule HSetObject_valid_calls)
next
  assume a: "\<forall>f \<in> set flds. \<not> tagged_for_write f"
  then have "\<forall>f \<in> set flds. tagged_for_write f \<longrightarrow> \<not> invalidFieldKind (field_kind f) \<and> field_exported f"
    by blast
  from HSetObject_valid_calls [OF this] field_writes_untagged [OF a]
  show "snd (HSetObject c key (GoStruct flds) ttl) =
          [Call_TxPipeline, Call_pipe (EXPIRE key ttl), Call_pipe_Exec [EXPIRE key ttl]]"
    by simp
qed

lemma sample_writes:
  "field_writes ''k''
     [StructField (Some ''name'') True reflect_String (GoValue reflect_String ''ann''),
      StructField (Some ''-'') True reflect_Int (GoValue reflect_Int ''7''),
      StructField None False reflect_Pointer (GoValue reflect_Pointer ''0xc000''),
      StructField (Some ''age'') True reflect_Int (GoValue reflect_Int ''41'')]
   = [HSET ''k'' ''name'' (GoValue reflect_String ''ann''),
      HSET ''k'' ''age'' (GoValue reflect_Int ''41'')]"
  by (simp add: field_writes_def List.map_filter_simps)

lemma sample_valid:
  "\<forall>f \<in> set [StructField (Some ''name'') True reflect_String (GoValue reflect_String ''ann''),
      StructField (Some ''-'') True reflect_Int (GoValue reflect_Int ''7''),
      StructField None False reflect_Pointer (GoValue reflect_Pointer ''0xc000''),
      StructField (Some ''age'') True reflect_Int (GoValue reflect_Int ''41'')].
      tagged_for_write f \<longrightarrow> \<not> invalidFieldKind (field_kind f) \<and> field_exported f"
  by (simp add: tagged_for_write_def invalidFieldKind_def)

text \<open>
  The sample object, with a field excluded by its tag and a field without tag, and an
  object whose only field has no tag.
\<close>

theorem HSetObject_executed_batch_witness:
  "snd (HSetObject quiet_conn ''k'' sample_object 60) =
     [Call_TxPipeline,
      Call_pipe (HSET ''k'' ''name'' (GoValue reflect_String ''ann'')),
      Call_pipe (HSET ''k'' ''age'' (GoValue reflect_Int ''41'')),
      Call_pipe (EXPIRE ''k'' 60),
      Call_pipe_Exec [HSET ''k'' ''name'' (GoValue reflect_String ''ann''),
                      HSET ''k'' ''age'' (GoValue reflect_Int ''41''), EXPIRE ''k'' 60]]
   \<and> snd (HSetObject quiet_conn ''k''
            (GoStruct [StructField None True reflect_Int (GoValue reflect_Int ''7'')]) 60) =
       [Call_TxPipeline, Call_pipe (EXPIRE ''k'' 60), Call_pipe_Exec [EXPIRE ''k'' 60]]"
proof
  have eq: "snd (HSetObject quiet_conn ''k''
     (GoStruct [StructField (Some ''name'') True reflect_String (GoValue reflect_String ''ann''),
      StructField (Some ''-'') True reflect_Int (GoValue reflect_Int ''7''),
      StructField None False reflect_Pointer (GoValue reflect_Pointer ''0xc000''),
      StructField (Some ''age'') True reflect_Int (GoValue reflect_Int ''41'')]) 60) =
     Call_TxPipeline # map Call_pipe
       [HSET ''k'' ''name'' (GoValue reflect_String ''ann''),
        HSET ''k'' ''age'' (GoValue reflect_Int ''41'')]
       @ [Call_pipe (EXPIRE ''k'' 60), Call_pipe_Exec
       ([HSET ''k'' ''name'' (GoValue reflect_String ''ann''),
        HSET ''k'' ''age'' (GoValue reflect_Int ''41'')] @ [EXPIRE ''k'' 60])]"
    using HSetObject_executed_batch
            [where c = quiet_conn and key = "''k''" and ttl = 60,
             THEN conjunct2, THEN conjunct2, THEN conjunct1, THEN mp, OF sample_valid]
    unfolding sample_writes .
  show "snd (HSetObject quiet_conn ''k'' sample_object 60) =
     [Call_TxPipeline,
      Call_pipe (HSET ''k'' ''name'' (GoValue reflect_String ''ann'')),
      Call_pipe (HSET ''k'' ''age'' (GoValue reflect_Int ''41'')),
      Call_pipe (EXPIRE ''k'' 60),
      Call_pipe_Exec [HSET ''k'' ''name'' (GoValue reflect_String ''ann''),
                      HSET ''k'' ''age'' (GoValue reflect_Int ''41''), EXPIRE ''k'' 60]]"
    unfolding sample_object_def eq by simp
next
  have untagged: "\<forall>f \<in> set [StructField None True reflect_Int (GoValue reflect_Int ''7'')].
      \<not> tagged_for_write f"
    by (simp add: tagged_for_write_def)
  show "snd (HSetObject quiet_conn ''k''
            (GoStruct [StructField None True reflect_Int (GoValue reflect_Int ''7'')]) 60) =
       [Call_TxPipeline, Call_pipe (EXPIRE ''k'' 60), Call_pipe_Exec [EXPIRE ''k'' 60]]"
    by (rule HSetObject_executed_batch
            [THEN conjunct2, THEN conjunct2, THEN conjunct2, THEN mp, OF untagged])
qed

section \<open>First-seen error of a batch\<close>

text \<open>
  What the three operations return for any answer of the backend: \<^verbatim>\<open>HSet\<close> and
  \<^verbatim>\<open>HSetObject\<close> hand on a non-nil error of \<^verbatim>\<open>Exec\<close> without looking at the
  sub-results; \<^verbatim>\<open>MassDelete\<close> looks at the sub-results first and falls back on the error
  of \<^verbatim>\<open>Pipelined\<close> only when there is no sub-result.
\<close>

lemma HSet_result:
  "\<not> invalidFieldKind (Kind val) \<Longrightarrow>
   conn_Exec c [HSET key field val, EXPIRE key ttl] = (cmds, err) \<Longrightarrow>
     fst (HSet c key field val ttl) = (case err of Some e \<Rightarrow> Some e | None \<Rightarrow> first_error cmds)"
  by (auto simp: HSet_def Let_def range_cmder_first first_error_Nil)

lemma HSetObject_result:
  assumes "\<forall>f \<in> set flds. tagged_for_write f \<longrightarrow>
             \<not> invalidFieldKind (field_kind f) \<and> field_exported f"
    and "conn_Exec c (field_writes key flds @ [EXPIRE key ttl]) = (cmds, err)"
  shows "fst (HSetObject c key (GoStruct flds) ttl) =
           Returned (case err of Some e \<Rightarrow> Some e | None \<Rightarrow> first_error cmds)"
  using assms(2)
  by (auto simp: HSetObject_fields_valid [OF assms(1)] Let_def range_cmder_first first_error_Nil)

lemma MassDelete_result:
  "conn_Pipelined c [DEL keys] = (cmds, err) \<Longrightarrow>
     fst (MassDelete c keys) = (if cmds = [] then err else first_error cmds)"
  by (simp add: MassDelete_def range_cmder_first)

text \<open>
  Claim C3: for every list of sub-results that the backend returns, the error returned
  by \<^verbatim>\<open>HSet\<close>, \<^verbatim>\<open>HSetObject\<close> and \<^verbatim>\<open>MassDelete\<close> is the first sub-result error in the order
  returned, whatever errors later sub-results carry, and none if no sub-result carries
  one. The backend returns the sub-results together with an error of the batch, and
  \<^verbatim>\<open>HSet\<close> and \<^verbatim>\<open>HSetObject\<close> return that error, when it is not nil, before they inspect
  the sub-results; the backend documents it as the error of the first failed command
  (\<^verbatim>\<open>Exec\<close> "always returns list of commands and error of the first failed command if
  any"), which is the assumption here. \<^verbatim>\<open>HSet\<close> and \<^verbatim>\<open>HSetObject\<close> reach the batch when
  the value, or every tagged field, passes the check of its kind.
\<close>

theorem batch_first_error:
  assumes "err = None \<or> err = first_error cmds"
  shows "(\<not> invalidFieldKind (Kind val)
            \<and> conn_Exec c [HSET key field val, EXPIRE key ttl] = (cmds, err)
          \<longrightarrow> fst (HSet c key field val ttl) = first_error cmds)
       \<and> ((\<forall>f \<in> set flds. tagged_for_write f \<longrightarrow>
                \<not> invalidFieldKind (field_kind f) \<and> field_exported f)
            \<and> conn_Exec c (field_writes key flds @ [EXPIRE key ttl]) = (cmds, err)
          \<longrightarrow> fst (HSetObject c key (GoStruct flds) ttl) = Returned (first_error cmds))
       \<and> (conn_Pipelined c [DEL keys] = (cmds, err)
          \<longrightarrow> fst (MassDelete c keys) = first_error cmds)"
proof (intro conjI impI)
  assume a: "\<not> invalidFieldKind (Kind val)
            \<and> conn_Exec c [HSET key field val, EXPIRE key ttl] = (cmds, err)"
  show "fst (HSet c key field val ttl) = first_error cmds"
    using a assms by (auto simp: HSet_def Let_def range_cmder_first first_error_Nil)
next
  assume a: "(\<forall>f \<in> set flds. tagged_for_write f \<longrightarrow>
                \<not> invalidFieldKind (field_kind f) \<and> field_exported f)
            \<and> conn_Exec c (field_writes key flds @ [EXPIRE key ttl]) = (cmds, err)"
  then have v: "\<forall>f \<in> set flds. tagged_for_write f \<longrightarrow>
                \<not> invalidFieldKind (field_kind f) \<and> field_exported f"
    and x: "conn_Exec c (field_writes key flds @ [EXPIRE key ttl]) = (cmds, err)" by blast+
  show "fst (HSetObject c key (GoStruct flds) ttl) = Returned (first_error cmds)"
    using x assms
    by (auto simp: HSetObject_fields_valid [OF v] Let_def range_cmder_first first_error_Nil)
next
  assume a: "conn_Pipelined c [DEL keys] = (cmds, err)"
  show "fst (MassDelete c keys) = first_error cmds"
    using a assms by (auto simp: MassDelete_def range_cmder_first first_error_Nil)
qed

text \<open>
  The sample object on a store where the second write and the expiry fail with
  different errors; a pipelined deletion that fails; and a batch without error.
\<close>

theorem batch_first_error_witness:
  "fst (HSetObject faulty_conn ''k'' sample_object 60)
     = Returned (Some (BackendError ''WRONGTYPE''))
   \<and> fst (MassDelete faulty_conn [''a'', ''b'']) = Some (BackendError ''READONLY'')
   \<and> fst (HSet quiet_conn ''k'' ''f'' (GoValue reflect_String ''v'') 60) = None"
proof (intro conjI)
  let ?cmds = "[\<lparr> cmd_Args = HSET ''k'' ''name'' (GoValue reflect_String ''ann''),
                  cmd_Err = None \<rparr>,
                \<lparr> cmd_Args = HSET ''k'' ''age'' (GoValue reflect_Int ''41''),
                  cmd_Err = Some (BackendError ''WRONGTYPE'') \<rparr>,
                \<lparr> cmd_Args = EXPIRE ''k'' 60, cmd_Err = Some (BackendError ''timeout'') \<rparr>]"
  have contract: "None = None \<or> None = first_error ?cmds"
    by simp
  have reply: "conn_Exec faulty_conn
                 ([HSET ''k'' ''name'' (GoValue reflect_String ''ann''),
                   HSET ''k'' ''age'' (GoValue reflect_Int ''41'')] @ [EXPIRE ''k'' 60])
               = (?cmds, None)"
    by (simp add: faulty_conn_def)
  have "fst (HSetObject faulty_conn ''k''
          (GoStruct
            [StructField (Some ''name'') True reflect_String (GoValue reflect_String ''ann''),
             StructField (Some ''-'') True reflect_Int (GoValue reflect_Int ''7''),
             StructField None False reflect_Pointer (GoValue reflect_Pointer ''0xc000''),
             StructField (Some ''age'') True reflect_Int (GoValue reflect_Int ''41'')]) 60)
        = Returned (first_error ?cmds)"
  proof (rule batch_first_error [OF contract, THEN conjunct2, THEN conjunct1, THEN mp],
         intro conjI)
    show "\<forall>f \<in> set
            [StructField (Some ''name'') True reflect_String (GoValue reflect_String ''ann''),
             StructField (Some ''-'') True reflect_Int (GoValue reflect_Int ''7''),
             StructField None False reflect_Pointer (GoValue reflect_Pointer ''0xc000''),
             StructField (Some ''age'') True reflect_Int (GoValue reflect_Int ''41'')].
            tagged_for_write f \<longrightarrow> \<not> invalidFieldKind (field_kind f) \<and> field_exported f"
      by (rule sample_valid)
    show "conn_Exec faulty_conn
            (field_writes ''k''
              [StructField (Some ''name'') True reflect_String (GoValue reflect_String ''ann''),
               StructField (Some ''-'') True reflect_Int (GoValue reflect_Int ''7''),
               StructField None False reflect_Pointer (GoValue reflect_Pointer ''0xc000''),
               StructField (Some ''age'') True reflect_Int (GoValue reflect_Int ''41'')]
             @ [EXPIRE ''k'' 60]) = (?cmds, None)"
      unfolding sample_writes by (rule reply)
  qed
  then show "fst (HSetObject faulty_conn ''k'' sample_object 60)
               = Returned (Some (BackendError ''WRONGTYPE''))"
    by (simp add: first_error_def sample_object_def)
next
  let ?cmds = "[\<lparr> cmd_Args = DEL [''a'', ''b''], cmd_Err = Some (BackendError ''READONLY'') \<rparr>]"
  have contract: "Some (BackendError ''READONLY'') = None
                  \<or> Some (BackendError ''READONLY'') = first_error ?cmds"
    by (simp add: first_error_def)
  have reply: "conn_Pipelined faulty_conn [DEL [''a'', ''b'']]
                 = (?cmds, Some (BackendError ''READONLY''))"
    by (simp add: faulty_conn_def)
  have "fst (MassDelete faulty_conn [''a'', ''b'']) = first_error ?cmds"
    by (rule batch_first_error [OF contract, THEN conjunct2, THEN conjunct2, THEN mp, OF reply])
  then show "fst (MassDelete faulty_conn [''a'', ''b'']) = Some (BackendError ''READONLY'')"
    by (simp add: first_error_def)
next
  let ?cmds = "[\<lparr> cmd_Args = HSET ''k'' ''f'' (GoValue reflect_String ''v''), cmd_Err = None \<rparr>,
                \<lparr> cmd_Args = EXPIRE ''k'' 60, cmd_Err = None \<rparr>]"
  have contract: "None = None \<or> None = first_error ?cmds"
    by simp
  have reply: "\<not> invalidFieldKind (Kind (GoValue reflect_String ''v''))
               \<and> conn_Exec quiet_conn [HSET ''k'' ''f'' (GoValue reflect_String ''v''), EXPIRE ''k'' 60]
                   = (?cmds, None)"
    by (simp add: invalidFieldKind_def quiet_conn_def)
  have "fst (HSet quiet_conn ''k'' ''f'' (GoValue reflect_String ''v'') 60) = first_error ?cmds"
    by (rule batch_first_error [OF contract, THEN conjunct1, THEN mp, OF reply])
  then show "fst (HSet quiet_conn ''k'' ''f'' (GoValue reflect_String ''v'') 60) = None"
    by (simp add: first_error_def)
qed

text \<open>
  Claim C10: \<^verbatim>\<open>HSetObject\<close> needs \<open>data\<close> to be a struct. For every other value the
  enumeration of the fields panics: the operation has opened the pipeline and nothing
  more, so it reaches no check of a kind, queues and executes no command and returns
  no error, \<^verbatim>\<open>ErrInvalidFieldType\<close> included. Whenever it returns, \<open>data\<close> is a struct;
  and for a struct whose tagged fields are exported it does return.
\<close>

theorem HSetObject_struct_only:
  "(Kind data \<noteq> reflect_Struct \<longrightarrow> HSetObject c key data ttl = (Panicked, [Call_TxPipeline]))
   \<and> (fst (HSetObject c key data ttl) = Returned r \<longrightarrow> Kind data = reflect_Struct)
   \<and> ((\<forall>f \<in> set flds. tagged_for_write f \<longrightarrow> field_exported f) \<longrightarrow>
        (\<exists>r. fst (HSetObject c key (GoStruct flds) ttl) = Returned r))"
proof (intro conjI impI)
  assume "Kind data \<noteq> reflect_Struct"
  then show "HSetObject c key data ttl = (Panicked, [Call_TxPipeline])"
    by (cases data) simp_all
next
  assume "fst (HSetObject c key data ttl) = Returned r"
  then show "Kind data = reflect_Struct"
    by (cases data) simp_all
next
  assume exported: "\<forall>f \<in> set flds. tagged_for_write f \<longrightarrow> field_exported f"
  obtain r pipe calls where
    res: "HSetObject_fields key flds ([], [Call_TxPipeline]) = (r, pipe, calls)"
    by (cases "HSetObject_fields key flds ([], [Call_TxPipeline])") auto
  from HSetObject_fields_no_panic [OF exported, of key "([], [Call_TxPipeline])"] res
  have "r \<noteq> Panicked" by simp
  then obtain e where r: "r = Returned e" by (cases r) auto
  show "\<exists>r. fst (HSetObject c key (GoStruct flds) ttl) = Returned r"
    using res r by (cases e) (auto simp: Let_def split: prod.splits)
qed

text \<open>A string and the nil interface as \<open>data\<close>, and the sample object.\<close>

theorem HSetObject_struct_only_witness:
  "HSetObject quiet_conn ''k'' (GoValue reflect_String ''v'') 60 = (Panicked, [Call_TxPipeline])
   \<and> HSetObject quiet_conn ''k'' GoNil 60 = (Panicked, [Call_TxPipeline])
   \<and> Kind sample_object = reflect_Struct"
proof (intro conjI)
  show "HSetObject quiet_conn ''k'' (GoValue reflect_String ''v'') 60 = (Panicked, [Call_TxPipeline])"
    using HSetObject_struct_only [of "GoValue reflect_String ''v''" quiet_conn "''k''" 60]
    by simp
  show "HSetObject quiet_conn ''k'' GoNil 60 = (Panicked, [Call_TxPipeline])"
    using HSetObject_struct_only [of GoNil quiet_conn "''k''" 60]
    by simp
  have "fst (HSetObject quiet_conn ''k'' sample_object 60) = Returned None"
    by (simp add: sample_object_def quiet_conn_def invalidFieldKind_def Let_def)
  from HSetObject_struct_only
         [where c = quiet_conn and key = "''k''" and data = sample_object and ttl = 60
            and r = None, THEN conjunct2, THEN conjunct1, THEN mp, OF this]
  show "Kind sample_object = reflect_Struct" .
qed

section \<open>Identity\<close>

lemma inj_unary_tokens: "inj unary_tokens"
proof (rule injI)
  fix m n assume "unary_tokens m = unary_tokens n"
  then have "length (unary_tokens m) = length (unary_tokens n)" by simp
  then show "m = n" by (simp add: unary_tokens_def)
qed

text \<open>
  Claim C9: when an explicit client id is supplied (\<^verbatim>\<open>WithClientID\<close> with a non-empty
  id), the identity is the id, the delimiter \<^verbatim>\<open>"-"\<close> and a freshly generated token, and
  every later lookup returns that same string and draws no token; when no id is
  supplied, each lookup draws a fresh token and stores nothing, so that the second of
  two lookups returns the next token, which differs from the first as tokens are
  unique.
\<close>

theorem identity_resolution:
  "(i \<noteq> [] \<longrightarrow>
      c_id (fst (apply_Option src (WithClientID i) (c, n))) = i @ ''-'' @ src n
      \<and> snd (apply_Option src (WithClientID i) (c, n)) = Suc n
      \<and> (\<forall>m. getID src (fst (apply_Option src (WithClientID i) (c, n))) m
                = (i @ ''-'' @ src n, m)))
   \<and> (c_id c = [] \<longrightarrow>
        getID src c n = (src n, Suc n)
        \<and> getID src c (snd (getID src c n)) = (src (Suc n), Suc (Suc n))
        \<and> (inj src \<longrightarrow> fst (getID src c (snd (getID src c n))) \<noteq> fst (getID src c n)))"
proof (intro conjI impI allI)
  assume "i \<noteq> []"
  then show "c_id (fst (apply_Option src (WithClientID i) (c, n))) = i @ ''-'' @ src n"
    by (simp add: GenerateUUID_def)
next
  assume "i \<noteq> []"
  then show "snd (apply_Option src (WithClientID i) (c, n)) = Suc n"
    by (simp add: GenerateUUID_def)
next
  fix m assume "i \<noteq> []"
  then show "getID src (fst (apply_Option src (WithClientID i) (c, n))) m = (i @ ''-'' @ src n, m)"
    by (simp add: GenerateUUID_def getID_def)
next
  assume "c_id c = []"
  then show "getID src c n = (src n, Suc n)"
    by (simp add: GenerateUUID_def getID_def)
next
  assume "c_id c = []"
  then show "getID src c (snd (getID src c n)) = (src (Suc n), Suc (Suc n))"
    by (simp add: GenerateUUID_def getID_def)
next
  assume e: "c_id c = []" and inj: "inj src"
  from inj have "src (Suc n) \<noteq> src n" by (auto dest: injD)
  with e show "fst (getID src c (snd (getID src c n))) \<noteq> fst (getID src c n)"
    by (simp add: GenerateUUID_def getID_def)
qed

text \<open>
  The id \<^verbatim>\<open>"test-client"\<close> on a client without id, with two tokens already drawn, and
  two lookups on the client without id.
\<close>

theorem identity_resolution_witness:
  "getID unary_tokens
     (fst (apply_Option unary_tokens (WithClientID ''test-client'') (anonymous_client, 2))) 5
     = (''test-client-uu'', 5)
   \<and> getID unary_tokens anonymous_client 2 = (''uu'', 3)
   \<and> fst (getID unary_tokens anonymous_client (snd (getID unary_tokens anonymous_client 2)))
       \<noteq> fst (getID unary_tokens anonymous_client 2)"
proof -
  have given: "''test-client'' \<noteq> []" by simp
  have anon: "c_id anonymous_client = []" by (simp add: anonymous_client_def)
  note inst = identity_resolution
                [where i = "''test-client''" and src = unary_tokens and c = anonymous_client
                   and n = 2]
  have a: "getID unary_tokens
             (fst (apply_Option unary_tokens (WithClientID ''test-client'') (anonymous_client, 2))) 5
           = (''test-client'' @ ''-'' @ unary_tokens 2, 5)"
    using inst [THEN conjunct1, THEN mp, OF given] by blast
  have b: "getID unary_tokens anonymous_client 2 = (unary_tokens 2, Suc 2)"
    using inst [THEN conjunct2, THEN mp, OF anon] by blast
  have d: "fst (getID unary_tokens anonymous_client (snd (getID unary_tokens anonymous_client 2)))
           \<noteq> fst (getID unary_tokens anonymous_client 2)"
    using inst [THEN conjunct2, THEN mp, OF anon] inj_unary_tokens by blast
  have u2: "unary_tokens 2 = ''uu''"
    by (simp add: unary_tokens_def numeral_2_eq_2)
  have a': "getID unary_tokens
             (fst (apply_Option unary_tokens (WithClientID ''test-client'') (anonymous_client, 2))) 5
           = (''test-client-uu'', 5)"
    unfolding a u2 by simp
  have b': "getID unary_tokens anonymous_client 2 = (''uu'', 3)"
    unfolding b u2 by simp
  from a' b' d show ?thesis by (intro conjI)
qed

section \<open>Construction\<close>

lemma exposeInstrumenting_cases:
  "exposeInstrumenting b c cn =
     (case InstrumentTracing b cn (c_traceOptions c) of
        Some e \<Rightarrow> (Some e, [Ev_InstrumentTracing (c_traceOptions c)])
      | None \<Rightarrow>
          (case InstrumentMetrics b cn (c_meterOptions c) of
             Some e \<Rightarrow> (Some e, [Ev_InstrumentTracing (c_traceOptions c),
                                  Ev_InstrumentMetrics (c_meterOptions c)])
           | None \<Rightarrow> (None, [Ev_InstrumentTracing (c_traceOptions c),
                              Ev_InstrumentMetrics (c_meterOptions c)])))"
  by (simp add: exposeInstrumenting_def Let_def split: option.splits)

lemma newClient_tail:
  "(case exposeInstrumenting b c cn of
      (err, evs') \<Rightarrow>
        (case err of
           Some e \<Rightarrow> (Inl e, [Ev_Open cn] @ evs', n)
         | None \<Rightarrow>
             (case Ping b cn of
                Some e \<Rightarrow> (Inl e, ([Ev_Open cn] @ evs') @ [Ev_Ping], n)
              | None \<Rightarrow> (Inr c, ([Ev_Open cn] @ evs') @ [Ev_Ping], n)))) =
   (case InstrumentTracing b cn (c_traceOptions c) of
      Some e \<Rightarrow> (Inl e, [Ev_Open cn, Ev_InstrumentTracing (c_traceOptions c)], n)
    | None \<Rightarrow>
        (case InstrumentMetrics b cn (c_meterOptions c) of
           Some e \<Rightarrow> (Inl e, [Ev_Open cn, Ev_InstrumentTracing (c_traceOptions c),
                              Ev_InstrumentMetrics (c_meterOptions c)], n)
         | None \<Rightarrow>
             (case Ping b cn of
                Some e \<Rightarrow> (Inl e, [Ev_Open cn, Ev_InstrumentTracing (c_traceOptions c),
                                   Ev_InstrumentMetrics (c_meterOptions c), Ev_Ping], n)
              | None \<Rightarrow> (Inr c, [Ev_Open cn, Ev_InstrumentTracing (c_traceOptions c),
                                 Ev_InstrumentMetrics (c_meterOptions c), Ev_Ping], n))))"
  by (simp add: exposeInstrumenting_cases split: option.splits)

text \<open>
  Claim C8, as amended: during construction the instrumentation is attached exactly
  once, after the connection is created and before it is pinged; tracing is
  installed before metrics, and metrics only if tracing succeeded; a failure of
  either aborts construction with that error, and then the connection is not pinged.
  The events of a construction are the creation of the connection, the two
  installations and the ping, up to the first that fails.
\<close>

theorem newClient_attach_then_ping:
  "\<exists>c cn n'. c_conn c = Some cn \<and>
     newClient src b parseConfig cluster opts n =
       (case InstrumentTracing b cn (c_traceOptions c) of
          Some e \<Rightarrow> (Inl e, [Ev_Open cn, Ev_InstrumentTracing (c_traceOptions c)], n')
        | None \<Rightarrow>
            (case InstrumentMetrics b cn (c_meterOptions c) of
               Some e \<Rightarrow> (Inl e, [Ev_Open cn, Ev_InstrumentTracing (c_traceOptions c),
                                  Ev_InstrumentMetrics (c_meterOptions c)], n')
             | None \<Rightarrow>
                 (case Ping b cn of
                    Some e \<Rightarrow> (Inl e, [Ev_Open cn, Ev_InstrumentTracing (c_traceOptions c),
                                       Ev_InstrumentMetrics (c_meterOptions c), Ev_Ping], n')
                  | None \<Rightarrow> (Inr c, [Ev_Open cn, Ev_InstrumentTracing (c_traceOptions c),
                                     Ev_InstrumentMetrics (c_meterOptions c), Ev_Ping], n'))))"
proof -
  define c0 where "c0 = \<lparr> c_id = [], c_suffix = [], c_conn = None, c_cfg = defaultConfig,
                c_tls = None, c_logger = slog_Default, c_limiter = None,
                c_marshaller = None, c_meterOptions = [], c_traceOptions = [],
                c_namespace = [] \<rparr>"
  obtain c1 n1 where st: "apply_opts src opts (c0, n) = (c1, n1)"
    by (cases "apply_opts src opts (c0, n)") auto
  define c2 where "c2 = c1\<lparr> c_logger := Logger_With (c_logger c1) (''component'', ''redis'') \<rparr>"
  define c3 where "c3 = (if c_marshaller c2 = None then c2\<lparr> c_marshaller := Some json_Marshal \<rparr> else c2)"
  obtain name n2 where g: "getID src c3 n1 = (name, n2)"
    by (cases "getID src c3 n1") auto
  define cn where "cn =
    (if cluster
     then rdb_NewClusterClient ((parseClusterConfig (c_cfg c3))\<lparr> cTLSConfig := c_tls c3, cClientName := name \<rparr>)
     else rdb_NewClient ((parseConfig (c_cfg c3))\<lparr> oTLSConfig := c_tls c3, oClientName := name,
                            oLimiter := c_limiter c3 \<rparr>))"
  define c4 where "c4 = c3\<lparr> c_conn := Some cn \<rparr>"
  have "newClient src b parseConfig cluster opts n =
     (case exposeInstrumenting b c4 cn of
      (err, evs') \<Rightarrow>
        (case err of
           Some e \<Rightarrow> (Inl e, [Ev_Open cn] @ evs', n2)
         | None \<Rightarrow>
             (case Ping b cn of
                Some e \<Rightarrow> (Inl e, ([Ev_Open cn] @ evs') @ [Ev_Ping], n2)
              | None \<Rightarrow> (Inr c4, ([Ev_Open cn] @ evs') @ [Ev_Ping], n2))))"
    unfolding newClient_def Let_def c0_def [symmetric] st prod.case c2_def [symmetric]
      c3_def [symmetric] g
    by (cases cluster) (simp_all only: cn_def c4_def if_True if_False prod.case)
  then have "newClient src b parseConfig cluster opts n =
       (case InstrumentTracing b cn (c_traceOptions c4) of
          Some e \<Rightarrow> (Inl e, [Ev_Open cn, Ev_InstrumentTracing (c_traceOptions c4)], n2)
        | None \<Rightarrow>
            (case InstrumentMetrics b cn (c_meterOptions c4) of
               Some e \<Rightarrow> (Inl e, [Ev_Open cn, Ev_InstrumentTracing (c_traceOptions c4),
                                  Ev_InstrumentMetrics (c_meterOptions c4)], n2)
             | None \<Rightarrow>
                 (case Ping b cn of
                    Some e \<Rightarrow> (Inl e, [Ev_Open cn, Ev_InstrumentTracing (c_traceOptions c4),
                                       Ev_InstrumentMetrics (c_meterOptions c4), Ev_Ping], n2)
                  | None \<Rightarrow> (Inr c4, [Ev_Open cn, Ev_InstrumentTracing (c_traceOptions c4),
                                     Ev_InstrumentMetrics (c_meterOptions c4), Ev_Ping], n2))))"
    by (simp only: newClient_tail)
  moreover have "c_conn c4 = Some cn" by (simp add: c4_def)
  ultimately show ?thesis by blast
qed

text \<open>
  The attach does not wait for a successful ping: with a server that refuses the
  connection, tracing and metrics are installed, then the ping fails and construction
  returns its error.
\<close>

theorem newClient_attaches_without_ping:
  "fst (NewClient unary_tokens unreachable_backend parseClientConfig [] 0)
     = Inl (BackendError ''connection refused'')
   \<and> tl (fst (snd (NewClient unary_tokens unreachable_backend parseClientConfig [] 0)))
     = [Ev_InstrumentTracing [], Ev_InstrumentMetrics [], Ev_Ping]"
  by (simp add: NewClient_def newClient_def exposeInstrumenting_def unreachable_backend_def
        getID_def GenerateUUID_def Let_def)

end
